theory Spec2Isabelle
  imports Complex_Main
begin

section \<open>Numbers, vectors and matrices\<close>

text \<open>
  The controller of \<^verbatim>\<open>ds_impedance_controller.cpp\<close> computes with C++ \<^verbatim>\<open>double\<close> and
  \<^verbatim>\<open>float\<close>. A finite \<^verbatim>\<open>double\<close> is a \<^typ>\<open>real\<close> and arithmetic in \<^verbatim>\<open>double\<close> is exact:
  its rounding, and magnitudes beyond the range of the type, are outside the model.
  Three things are not idealised, because branches and issued commands depend on them:

  \<^item> A value stored in a \<^verbatim>\<open>float\<close> variable and a sum or difference of two \<^verbatim>\<open>float\<close>s is
    rounded to single precision by \<open>to_float\<close>, and a \<^verbatim>\<open>float\<close> literal denotes the rounded
    value (\<^verbatim>\<open>1e-3f\<close> is \<open>to_float (1/1000)\<close>, which is larger than \<open>1/1000\<close>). A \<^verbatim>\<open>double\<close>
    literal denotes its decimal value (\<^verbatim>\<open>0.2\<close> is \<open>2/10\<close>).
  \<^item> Where the program divides by zero, takes the square root of a negative number or the
    arc cosine of a number outside \<open>[-1, 1]\<close>, it goes on with an infinity or a NaN. The
    function that does so returns \<open>None\<close>.
  \<^item> A torque handed to the clamp and a command issued to a joint is a \<open>dbl\<close>: a number,
    an infinity or NaN.

  A dynamically sized Eigen vector (\<^verbatim>\<open>VectorXd\<close>, also \<^verbatim>\<open>std::vector<double>\<close>) is a list, a
  dynamically sized matrix (\<^verbatim>\<open>MatrixXd\<close>) the list of its rows (a matrix without rows has no
  column count in this representation; the controller refuses to start without joints).
  The fixed-size types \<^verbatim>\<open>Vector3d\<close>, \<^verbatim>\<open>Vector4d\<close> and \<^verbatim>\<open>Matrix3d\<close> are tuples, so that their
  size is part of the type as it is in the program.
\<close>

type_synonym vec = "real list"
type_synonym mat = "real list list"
type_synonym vec3 = "real \<times> real \<times> real"
type_synonym quat = "real \<times> real \<times> real \<times> real"
type_synonym mat3 = "vec3 \<times> vec3 \<times> vec3"

datatype dbl = Num real | PInf | MInf | NaN

text \<open>
  The comparisons of a \<^verbatim>\<open>double\<close> with a finite number: every comparison with NaN is
  false.
\<close>

fun dbl_greater :: "dbl \<Rightarrow> real \<Rightarrow> bool" where
  "dbl_greater (Num x) y = (x > y)"
| "dbl_greater PInf y = True"
| "dbl_greater MInf y = False"
| "dbl_greater NaN y = False"

fun dbl_less :: "dbl \<Rightarrow> real \<Rightarrow> bool" where
  "dbl_less (Num x) y = (x < y)"
| "dbl_less PInf y = False"
| "dbl_less MInf y = True"
| "dbl_less NaN y = False"

subsection \<open>Single precision\<close>

text \<open>
  Rounding to the nearest \<^verbatim>\<open>float\<close> (IEEE 754 binary32), ties to the even significand:
  the exponent of \<open>x\<close>, not below that of the subnormal numbers, fixes the spacing
  \<open>float_ulp x\<close> of the \<^verbatim>\<open>float\<close>s around \<open>x\<close>, and \<open>x\<close> is rounded to a multiple of it. Overflow
  to an infinity, for magnitudes of \<open>2\<^sup>1\<^sup>2\<^sup>8\<close> and more, is outside the model.
\<close>

definition round_even :: "real \<Rightarrow> int" where
  "round_even y =
     (let f = \<lfloor>y\<rfloor>; d = y - of_int f
      in if d < 1 / 2 then f else if 1 / 2 < d then f + 1 else if even f then f else f + 1)"

definition float_exponent :: "real \<Rightarrow> int" where
  "float_exponent x = max \<lfloor>log 2 \<bar>x\<bar>\<rfloor> (- 126)"

definition float_ulp :: "real \<Rightarrow> real" where
  "float_ulp x = 2 powr of_int (float_exponent x - 23)"

definition to_float :: "real \<Rightarrow> real" where
  "to_float x = (if x = 0 then 0 else of_int (round_even (x / float_ulp x)) * float_ulp x)"

definition fadd :: "real \<Rightarrow> real \<Rightarrow> real" where
  "fadd a b = to_float (a + b)"

definition fsub :: "real \<Rightarrow> real \<Rightarrow> real" where
  "fsub a b = to_float (a - b)"

subsection \<open>Vectors and matrices\<close>

definition dot :: "vec \<Rightarrow> vec \<Rightarrow> real" where
  "dot a b = sum_list (map2 (*) a b)"

definition mat_vec :: "mat \<Rightarrow> vec \<Rightarrow> vec" where
  "mat_vec M v = map (\<lambda>r. dot r v) M"

definition mcols :: "mat \<Rightarrow> nat" where
  "mcols M = (case M of [] \<Rightarrow> 0 | r # _ \<Rightarrow> length r)"

definition rectangular :: "nat \<Rightarrow> nat \<Rightarrow> mat \<Rightarrow> bool" where
  "rectangular m n M = (length M = m \<and> list_all (\<lambda>r. length r = n) M)"

definition mtranspose :: "mat \<Rightarrow> mat" where
  "mtranspose M = map (\<lambda>j. map (\<lambda>r. r ! j) M) [0..<mcols M]"

definition mat_mul :: "mat \<Rightarrow> mat \<Rightarrow> mat" where
  "mat_mul A B = map (\<lambda>r. map (\<lambda>c. dot r c) (mtranspose B)) A"

definition mat_sub :: "mat \<Rightarrow> mat \<Rightarrow> mat" where
  "mat_sub A B = map2 (map2 (-)) A B"

definition identity_mat :: "nat \<Rightarrow> mat" where
  "identity_mat n = map (\<lambda>i. map (\<lambda>j. if i = j then 1 else 0) [0..<n]) [0..<n]"

definition vec_add :: "vec \<Rightarrow> vec \<Rightarrow> vec" where
  "vec_add a b = map2 (+) a b"

definition vec_sub :: "vec \<Rightarrow> vec \<Rightarrow> vec" where
  "vec_sub a b = map2 (-) a b"

definition vec_scale :: "real \<Rightarrow> vec \<Rightarrow> vec" where
  "vec_scale c a = map (\<lambda>x. c * x) a"

definition v3_add :: "vec3 \<Rightarrow> vec3 \<Rightarrow> vec3" where
  "v3_add a b = (case a of (a0, a1, a2) \<Rightarrow> case b of (b0, b1, b2) \<Rightarrow>
     (a0 + b0, a1 + b1, a2 + b2))"

definition v3_sub :: "vec3 \<Rightarrow> vec3 \<Rightarrow> vec3" where
  "v3_sub a b = (case a of (a0, a1, a2) \<Rightarrow> case b of (b0, b1, b2) \<Rightarrow>
     (a0 - b0, a1 - b1, a2 - b2))"

definition v3_scale :: "real \<Rightarrow> vec3 \<Rightarrow> vec3" where
  "v3_scale c a = (case a of (a0, a1, a2) \<Rightarrow> (c * a0, c * a1, c * a2))"

definition v3_div :: "vec3 \<Rightarrow> real \<Rightarrow> vec3" where
  "v3_div a c = (case a of (a0, a1, a2) \<Rightarrow> (a0 / c, a1 / c, a2 / c))"

definition v3_list :: "vec3 \<Rightarrow> vec" where
  "v3_list a = (case a of (a0, a1, a2) \<Rightarrow> [a0, a1, a2])"

definition norm3 :: "vec3 \<Rightarrow> real" where
  "norm3 a = (case a of (a0, a1, a2) \<Rightarrow> sqrt (a0 * a0 + a1 * a1 + a2 * a2))"

definition mat3_mul :: "mat3 \<Rightarrow> mat3 \<Rightarrow> mat3" where
  "mat3_mul A B =
     (case A of ((a11, a12, a13), (a21, a22, a23), (a31, a32, a33)) \<Rightarrow>
      case B of ((b11, b12, b13), (b21, b22, b23), (b31, b32, b33)) \<Rightarrow>
       ((a11 * b11 + a12 * b21 + a13 * b31,
         a11 * b12 + a12 * b22 + a13 * b32,
         a11 * b13 + a12 * b23 + a13 * b33),
        (a21 * b11 + a22 * b21 + a23 * b31,
         a21 * b12 + a22 * b22 + a23 * b32,
         a21 * b13 + a22 * b23 + a23 * b33),
        (a31 * b11 + a32 * b21 + a33 * b31,
         a31 * b12 + a32 * b22 + a33 * b32,
         a31 * b13 + a32 * b23 + a33 * b33)))"

definition mat3_det :: "mat3 \<Rightarrow> real" where
  "mat3_det A =
     (case A of ((a11, a12, a13), (a21, a22, a23), (a31, a32, a33)) \<Rightarrow>
        a11 * (a22 * a33 - a23 * a32)
      - a12 * (a21 * a33 - a23 * a31)
      + a13 * (a21 * a32 - a22 * a31))"

text \<open>
  \<^verbatim>\<open>R.inverse()\<close> on a \<^verbatim>\<open>Matrix3d\<close> is Eigen's closed form for fixed size three: the
  transposed cofactor matrix divided by the determinant. With a zero determinant every
  entry of the result is an infinity or NaN.
\<close>

definition mat3_inverse :: "mat3 \<Rightarrow> mat3 option" where
  "mat3_inverse A =
     (case A of ((a11, a12, a13), (a21, a22, a23), (a31, a32, a33)) \<Rightarrow>
      let d = mat3_det A in
      if d = 0 then None else Some
       (((a22 * a33 - a23 * a32) / d,
         (a13 * a32 - a12 * a33) / d,
         (a12 * a23 - a13 * a22) / d),
        ((a23 * a31 - a21 * a33) / d,
         (a11 * a33 - a13 * a31) / d,
         (a13 * a21 - a11 * a23) / d),
        ((a21 * a32 - a22 * a31) / d,
         (a12 * a31 - a11 * a32) / d,
         (a11 * a22 - a12 * a21) / d)))"

definition mat3_identity :: mat3 where
  "mat3_identity = ((1, 0, 0), (0, 1, 0), (0, 0, 1))"

definition mat3_transpose :: "mat3 \<Rightarrow> mat3" where
  "mat3_transpose A =
     (case A of ((a11, a12, a13), (a21, a22, a23), (a31, a32, a33)) \<Rightarrow>
       ((a11, a21, a31), (a12, a22, a32), (a13, a23, a33)))"

definition is_rotation :: "mat3 \<Rightarrow> bool" where
  "is_rotation R = (mat3_mul (mat3_transpose R) R = mat3_identity \<and> mat3_det R = 1)"


section \<open>Damped pseudo-inverse\<close>

text \<open>
  \<^verbatim>\<open>Eigen::JacobiSVD\<close> is a library routine: the decomposition is a parameter \<open>svd\<close>
  that returns the triple of \<^verbatim>\<open>matrixU()\<close>, \<^verbatim>\<open>singularValues()\<close> and \<^verbatim>\<open>matrixV()\<close>.
  For an \<open>m \<times> n\<close> argument Eigen returns an \<open>m \<times> m\<close> matrix, \<open>min m n\<close> singular values
  and an \<open>n \<times> n\<close> matrix (\<^verbatim>\<open>ComputeFullU | ComputeFullV\<close>).

  The trailing underscore of the program's names (\<^verbatim>\<open>lambda_\<close>, \<^verbatim>\<open>sing_vals_\<close>, \<^verbatim>\<open>S_\<close>, and
  the members of the controller below) is dropped or replaced, since an Isabelle name
  cannot end in one.
\<close>

type_synonym svd_routine = "mat \<Rightarrow> mat \<times> vec \<times> mat"

definition lambda_of :: "bool \<Rightarrow> real" where
  "lambda_of damped = (if damped then 0.2 else 0.0)"

definition pinv_divisor :: "real \<Rightarrow> real \<Rightarrow> real" where
  "pinv_divisor lam s = s * s + lam * lam"

definition set_entry :: "mat \<Rightarrow> nat \<Rightarrow> nat \<Rightarrow> real \<Rightarrow> mat" where
  "set_entry S i j v = S[i := (S ! i)[j := v]]"

definition setZero :: "mat \<Rightarrow> mat" where
  "setZero M = map (map (\<lambda>_. 0)) M"

definition pseudo_inverse :: "svd_routine \<Rightarrow> mat \<Rightarrow> bool \<Rightarrow> mat" where
  "pseudo_inverse svd M damped =
     (let lam = lambda_of damped;
          (U, sing_vals, V) = svd M;
          Sd = fold (\<lambda>i S. set_entry S i i (sing_vals ! i / pinv_divisor lam (sing_vals ! i)))
                 [0..<length sing_vals] (setZero M)
      in mat_mul (mat_mul V (mtranspose Sd)) (mtranspose U))"

text \<open>
  The specification's side of the comparison, written from its words and not from the
  program: the diagonal matrix with \<open>r\<close> rows and \<open>c\<close> columns that has the list \<open>d\<close> on its
  diagonal, and the damped values \<open>\<sigma>\<^sub>i / (\<sigma>\<^sub>i\<^sup>2 + \<lambda>\<^sup>2)\<close> with \<open>\<lambda> = 0.2\<close> when damped and \<open>\<lambda> = 0\<close>
  otherwise.
\<close>

definition spec_diag_mat :: "nat \<Rightarrow> nat \<Rightarrow> vec \<Rightarrow> mat" where
  "spec_diag_mat r c d =
     map (\<lambda>i. map (\<lambda>j. if i = j \<and> i < length d then d ! i else 0) [0..<c]) [0..<r]"

definition spec_damped_values :: "bool \<Rightarrow> vec \<Rightarrow> vec" where
  "spec_damped_values damped sv =
     map (\<lambda>s. s / (s\<^sup>2 + (if damped then 0.2 else 0)\<^sup>2)) sv"


section \<open>Rotation algebra\<close>

datatype branch = BranchW | BranchX | BranchY | BranchZ

text \<open>
  \<^verbatim>\<open>rotationMatrixToQuaternion\<close> first stores the nine entries in \<^verbatim>\<open>float\<close> variables and
  computes the four trace-like quantities in \<^verbatim>\<open>float\<close>. With entries of magnitude up to
  \<open>2\<^sup>1\<^sup>2\<^sup>6\<close>, as those of every rotation matrix are, none of this overflows.
\<close>

definition narrow :: "mat3 \<Rightarrow> mat3" where
  "narrow R =
     (case R of ((a11, a12, a13), (a21, a22, a23), (a31, a32, a33)) \<Rightarrow>
       ((to_float a11, to_float a12, to_float a13),
        (to_float a21, to_float a22, to_float a23),
        (to_float a31, to_float a32, to_float a33)))"

definition in_float_range :: "mat3 \<Rightarrow> bool" where
  "in_float_range R =
     (case R of ((a11, a12, a13), (a21, a22, a23), (a31, a32, a33)) \<Rightarrow>
        list_all (\<lambda>a. \<bar>a\<bar> \<le> 2 ^ 126) [a11, a12, a13, a21, a22, a23, a31, a32, a33])"

definition tr :: "mat3 \<Rightarrow> real" where
  "tr R = (case narrow R of ((r11, r12, r13), (r21, r22, r23), (r31, r32, r33)) \<Rightarrow>
     fadd (fadd r11 r22) r33)"

definition tr1 :: "mat3 \<Rightarrow> real" where
  "tr1 R = (case narrow R of ((r11, r12, r13), (r21, r22, r23), (r31, r32, r33)) \<Rightarrow>
     fsub (fsub r11 r22) r33)"

definition tr2 :: "mat3 \<Rightarrow> real" where
  "tr2 R = (case narrow R of ((r11, r12, r13), (r21, r22, r23), (r31, r32, r33)) \<Rightarrow>
     fsub (fadd (- r11) r22) r33)"

definition tr3 :: "mat3 \<Rightarrow> real" where
  "tr3 R = (case narrow R of ((r11, r12, r13), (r21, r22, r23), (r31, r32, r33)) \<Rightarrow>
     fadd (fsub (- r11) r22) r33)"

text \<open>
  One branch of the conversion: \<open>t\<close> is the quantity of the branch, \<open>a\<close>, \<open>b\<close>, \<open>c\<close> are the
  three numerators (differences or sums of two \<^verbatim>\<open>float\<close>s) and the result lists the
  component under the square root first. A square root of a negative number is NaN and a
  zero under it makes the three divisors zero; the result then has an infinity or NaN.
\<close>

definition branch_values :: "real \<Rightarrow> real \<Rightarrow> real \<Rightarrow> real \<Rightarrow> (real \<times> real \<times> real \<times> real) option" where
  "branch_values t a b c =
     (if fadd 1 t \<le> 0 then None
      else let p = sqrt (fadd 1 t) / 2 in Some (p, a / (4 * p), b / (4 * p), c / (4 * p)))"

definition rotationMatrixToQuaternion :: "mat3 \<Rightarrow> quat option" where
  "rotationMatrixToQuaternion R =
     (case narrow R of ((r11, r12, r13), (r21, r22, r23), (r31, r32, r33)) \<Rightarrow>
      if tr R > 0 then
        map_option (\<lambda>(q0, q1, q2, q3). (q0, q1, q2, q3))
          (branch_values (tr R) (fsub r32 r23) (fsub r13 r31) (fsub r21 r12))
      else if tr1 R > tr2 R \<and> tr1 R > tr3 R then
        map_option (\<lambda>(q1, q0, q2, q3). (q0, q1, q2, q3))
          (branch_values (tr1 R) (fsub r32 r23) (fadd r21 r12) (fadd r31 r13))
      else if tr2 R > tr1 R \<and> tr2 R > tr3 R then
        map_option (\<lambda>(q2, q0, q1, q3). (q0, q1, q2, q3))
          (branch_values (tr2 R) (fsub r13 r31) (fadd r21 r12) (fadd r32 r23))
      else
        map_option (\<lambda>(q3, q0, q1, q2). (q0, q1, q2, q3))
          (branch_values (tr3 R) (fsub r21 r12) (fadd r31 r13) (fadd r32 r23)))"

text \<open>
  The branch of \<^const>\<open>rotationMatrixToQuaternion\<close> that runs, the quantity under the
  square root of each branch, and what each branch computes.
\<close>

definition selected_branch :: "mat3 \<Rightarrow> branch" where
  "selected_branch R =
     (if tr R > 0 then BranchW
      else if tr1 R > tr2 R \<and> tr1 R > tr3 R then BranchX
      else if tr2 R > tr1 R \<and> tr2 R > tr3 R then BranchY
      else BranchZ)"

fun branch_quantity :: "branch \<Rightarrow> mat3 \<Rightarrow> real" where
  "branch_quantity BranchW R = tr R"
| "branch_quantity BranchX R = tr1 R"
| "branch_quantity BranchY R = tr2 R"
| "branch_quantity BranchZ R = tr3 R"

fun branch_result :: "branch \<Rightarrow> mat3 \<Rightarrow> quat option" where
  "branch_result BranchW R =
     (case narrow R of ((r11, r12, r13), (r21, r22, r23), (r31, r32, r33)) \<Rightarrow>
        map_option (\<lambda>(q0, q1, q2, q3). (q0, q1, q2, q3))
          (branch_values (tr R) (fsub r32 r23) (fsub r13 r31) (fsub r21 r12)))"
| "branch_result BranchX R =
     (case narrow R of ((r11, r12, r13), (r21, r22, r23), (r31, r32, r33)) \<Rightarrow>
        map_option (\<lambda>(q1, q0, q2, q3). (q0, q1, q2, q3))
          (branch_values (tr1 R) (fsub r32 r23) (fadd r21 r12) (fadd r31 r13)))"
| "branch_result BranchY R =
     (case narrow R of ((r11, r12, r13), (r21, r22, r23), (r31, r32, r33)) \<Rightarrow>
        map_option (\<lambda>(q2, q0, q1, q3). (q0, q1, q2, q3))
          (branch_values (tr2 R) (fsub r13 r31) (fadd r21 r12) (fadd r32 r23)))"
| "branch_result BranchZ R =
     (case narrow R of ((r11, r12, r13), (r21, r22, r23), (r31, r32, r33)) \<Rightarrow>
        map_option (\<lambda>(q3, q0, q1, q2). (q0, q1, q2, q3))
          (branch_values (tr3 R) (fsub r21 r12) (fadd r31 r13) (fadd r32 r23)))"

definition quaternionToRotationMatrix :: "quat \<Rightarrow> mat3" where
  "quaternionToRotationMatrix q =
     (case q of (q0, q1, q2, q3) \<Rightarrow>
       ((q0 * q0 + q1 * q1 - q2 * q2 - q3 * q3,
         2 * (q1 * q2 - q0 * q3),
         2 * (q1 * q3 + q0 * q2)),
        (2 * (q1 * q2 + q0 * q3),
         q0 * q0 - q1 * q1 + q2 * q2 - q3 * q3,
         2 * (q2 * q3 - q0 * q1)),
        (2 * (q1 * q3 - q0 * q2),
         2 * (q2 * q3 + q0 * q1),
         q0 * q0 - q1 * q1 - q2 * q2 + q3 * q3)))"

definition segment13 :: "quat \<Rightarrow> vec3" where
  "segment13 q = (case q of (q0, q1, q2, q3) \<Rightarrow> (q1, q2, q3))"

text \<open>
  \<^verbatim>\<open>std::acos\<close> returns NaN outside \<open>[-1, 1]\<close>.
\<close>

definition acos_opt :: "real \<Rightarrow> real option" where
  "acos_opt x = (if - 1 \<le> x \<and> x \<le> 1 then Some (arccos x) else None)"

text \<open>
  The norm of the vector part is compared with the \<^verbatim>\<open>float\<close> literal \<^verbatim>\<open>1e-3f\<close>, converted to
  \<^verbatim>\<open>double\<close>. The angle is \<open>None\<close> where the program has NaN.
\<close>

definition quaternionToAxisAngle :: "quat \<Rightarrow> vec3 \<times> real option" where
  "quaternionToAxisAngle q =
     (let axis = (if norm3 (segment13 q) < to_float (1 / 1000) then segment13 q
                  else v3_div (segment13 q) (norm3 (segment13 q)));
          angle = map_option (\<lambda>a. 2 * a) (acos_opt (fst q))
      in (axis, angle))"


section \<open>The controller\<close>

text \<open>
  The collaborators are outside this file and are parameters of the model: the hardware
  joint handles (\<^verbatim>\<open>getPosition\<close>, \<^verbatim>\<open>getVelocity\<close>, \<^verbatim>\<open>setCommand\<close>), the kinematics
  provider \<^verbatim>\<open>tools_\<close> (\<^verbatim>\<open>perform_fk\<close>, \<^verbatim>\<open>jacobian\<close>), Eigen's singular value decomposition
  and the velocity-tracking primitive \<^verbatim>\<open>passive_ds_\<close>, whose state is the type variable
  \<open>'ds\<close> and whose four operations are functions on it.
\<close>

record joint_handle =
  hw_position :: real
  hw_velocity :: real
  hw_command :: dbl

record robot_state =
  rs_position :: vec
  rs_velocity :: vec

record 'ds tools =
  tools_perform_fk :: "robot_state \<Rightarrow> vec3 \<times> quat"
  tools_jacobian :: "robot_state \<Rightarrow> mat"
  jacobi_svd :: svd_routine
  passive_ds_SetParams :: "nat \<Rightarrow> vec \<Rightarrow> 'ds \<Rightarrow> 'ds"
  passive_ds_SetInput :: "vec3 \<Rightarrow> 'ds \<Rightarrow> 'ds"
  passive_ds_Update :: "vec3 \<Rightarrow> 'ds \<Rightarrow> 'ds"
  passive_ds_GetOutput :: "'ds \<Rightarrow> vec3"

text \<open>
  The members of \<^verbatim>\<open>DSImpedanceController\<close>. \<open>joint_urdfs\<close> holds, for each joint, the value
  of \<^verbatim>\<open>joint_urdfs_[i]->limits->effort\<close>, or \<open>None\<close> when the joint of the robot description
  has no limits (the pointer \<^verbatim>\<open>limits\<close> is null). The members \<^verbatim>\<open>x_\<close>, \<^verbatim>\<open>q_\<close>, \<^verbatim>\<open>vd_\<close>,
  \<^verbatim>\<open>omegad_\<close>, \<^verbatim>\<open>qd_\<close> and \<^verbatim>\<open>j0_\<close> are \<open>ee_x\<close>, \<open>ee_q\<close>, \<open>cmd_vd\<close>, \<open>cmd_omegad\<close>, \<open>cmd_qd\<close>
  and \<open>ref_j0\<close>.
\<close>

record 'ds controller =
  n_joints :: nat
  joints :: "joint_handle list"
  joint_urdfs :: "real option list"
  firstCommand :: bool
  useNullSpace :: bool
  rotationalStiffness :: real
  rotationalDamping :: real
  jointLimitsGain :: real
  desiredJointsGain :: real
  jointVelocitiesGain :: real
  ref_j0 :: vec
  commands_buffer :: vec
  passive_ds :: 'ds
  ee_x :: vec3
  ee_q :: quat
  cmd_vd :: vec3
  cmd_omegad :: vec3
  cmd_qd :: quat

text \<open>
  What \<^verbatim>\<open>init\<close> establishes and no later code changes: one handle and one URDF joint per
  joint name.
\<close>

definition initialised :: "'ds controller \<Rightarrow> bool" where
  "initialised s = (length (joints s) = n_joints s \<and> length (joint_urdfs s) = n_joints s)"

datatype fault = OutOfBounds | SizeMismatch | NullLimits

datatype diagnostic = DimensionError nat

subsection \<open>Command callback\<close>

definition commandCB :: "vec \<Rightarrow> 'ds controller \<Rightarrow> diagnostic option \<times> 'ds controller" where
  "commandCB data s =
     (if length data \<noteq> n_joints s \<and> length data \<noteq> 10
      then (Some (DimensionError (length data)), s)
      else (None, (s\<lparr>commands_buffer := data\<rparr>)
                    \<lparr>firstCommand := (if \<not> firstCommand s then True else firstCommand s)\<rparr>))"

subsection \<open>Effort limits\<close>

definition enforceJointLimits :: "'ds controller \<Rightarrow> dbl \<Rightarrow> nat \<Rightarrow> fault + dbl" where
  "enforceJointLimits s command index =
     (case joint_urdfs s ! index of
        None \<Rightarrow> Inl NullLimits
      | Some effort \<Rightarrow>
          Inr (if dbl_greater command effort then Num effort
               else if dbl_less command (- effort) then Num (- effort)
               else command))"

subsection \<open>Tuning callback\<close>

text \<open>
  The type \<^verbatim>\<open>DSImpedance_paramConfig\<close> is generated from a file outside the sources; the
  record has the fields that the callback reads.
\<close>

record config =
  config_gain0 :: real
  config_gain1 :: real
  config_rotationalStiffness :: real
  config_rotationalDamping :: real
  config_useNullSpace :: bool
  config_jointLimitsGain :: real
  config_desiredJointsGain :: real
  config_jointVelocitiesGain :: real

definition eigvals_vec :: "config \<Rightarrow> vec" where
  "eigvals_vec cfg = (([] @ [config_gain0 cfg]) @ [config_gain1 cfg]) @ [config_gain1 cfg]"

definition dynamicReconfigureCallback ::
    "'ds tools \<Rightarrow> config \<Rightarrow> 'ds controller \<Rightarrow> 'ds controller" where
  "dynamicReconfigureCallback tools cfg s =
     s\<lparr>passive_ds := passive_ds_SetParams tools 3 (eigvals_vec cfg) (passive_ds s),
       rotationalStiffness := config_rotationalStiffness cfg,
       rotationalDamping := config_rotationalDamping cfg,
       useNullSpace := config_useNullSpace cfg,
       jointLimitsGain := config_jointLimitsGain cfg,
       desiredJointsGain := config_desiredJointsGain cfg,
       jointVelocitiesGain := config_jointVelocitiesGain cfg\<rparr>"

subsection \<open>Control cycle\<close>

text \<open>
  The local variables of the Active branch of \<^verbatim>\<open>update\<close>, one definition for each, in the
  order of the program.
\<close>

definition cycle_robot_state :: "'ds controller \<Rightarrow> robot_state" where
  "cycle_robot_state s =
     \<lparr>rs_position = map (\<lambda>i. hw_position (joints s ! i)) [0..<n_joints s],
      rs_velocity = map (\<lambda>i. hw_velocity (joints s ! i)) [0..<n_joints s]\<rparr>"

definition cycle_jac :: "'ds tools \<Rightarrow> 'ds controller \<Rightarrow> mat" where
  "cycle_jac tools s = tools_jacobian tools (cycle_robot_state s)"

definition cycle_j :: "'ds controller \<Rightarrow> vec" where
  "cycle_j s = map (\<lambda>i. hw_position (joints s ! i)) [0..<n_joints s]"

definition cycle_jv :: "'ds controller \<Rightarrow> vec" where
  "cycle_jv s = map (\<lambda>i. hw_velocity (joints s ! i)) [0..<n_joints s]"

definition cycle_twist :: "'ds tools \<Rightarrow> 'ds controller \<Rightarrow> vec" where
  "cycle_twist tools s = mat_vec (cycle_jac tools s) (cycle_jv s)"

definition cycle_omega :: "'ds tools \<Rightarrow> 'ds controller \<Rightarrow> vec3" where
  "cycle_omega tools s =
     (cycle_twist tools s ! 0, cycle_twist tools s ! 1, cycle_twist tools s ! 2)"

definition cycle_v :: "'ds tools \<Rightarrow> 'ds controller \<Rightarrow> vec3" where
  "cycle_v tools s =
     (cycle_twist tools s ! 3, cycle_twist tools s ! 4, cycle_twist tools s ! 5)"

definition cycle_vd :: "'ds controller \<Rightarrow> vec3" where
  "cycle_vd s = (commands_buffer s ! 0, commands_buffer s ! 1, commands_buffer s ! 2)"

definition cycle_omegad :: "'ds controller \<Rightarrow> vec3" where
  "cycle_omegad s = (commands_buffer s ! 3, commands_buffer s ! 4, commands_buffer s ! 5)"

definition cycle_qd :: "'ds controller \<Rightarrow> quat" where
  "cycle_qd s =
     (commands_buffer s ! 6, commands_buffer s ! 7, commands_buffer s ! 8, commands_buffer s ! 9)"

definition cycle_q :: "'ds tools \<Rightarrow> 'ds controller \<Rightarrow> quat" where
  "cycle_q tools s = snd (tools_perform_fk tools (cycle_robot_state s))"

definition cycle_passive_ds :: "'ds tools \<Rightarrow> 'ds controller \<Rightarrow> 'ds" where
  "cycle_passive_ds tools s =
     passive_ds_Update tools (cycle_v tools s)
       (passive_ds_SetInput tools (cycle_vd s) (passive_ds s))"

definition cycle_Flin :: "'ds tools \<Rightarrow> 'ds controller \<Rightarrow> vec3" where
  "cycle_Flin tools s = passive_ds_GetOutput tools (cycle_passive_ds tools s)"

definition cycle_Re :: "'ds tools \<Rightarrow> 'ds controller \<Rightarrow> mat3 option" where
  "cycle_Re tools s =
     (let R = quaternionToRotationMatrix (cycle_q tools s);
          Rd = quaternionToRotationMatrix (cycle_qd s)
      in map_option (\<lambda>Rinv. mat3_mul Rd Rinv) (mat3_inverse R))"

definition cycle_qe :: "'ds tools \<Rightarrow> 'ds controller \<Rightarrow> quat option" where
  "cycle_qe tools s = Option.bind (cycle_Re tools s) rotationMatrixToQuaternion"

definition cycle_axis :: "'ds tools \<Rightarrow> 'ds controller \<Rightarrow> vec3 option" where
  "cycle_axis tools s = map_option (\<lambda>qe. fst (quaternionToAxisAngle qe)) (cycle_qe tools s)"

definition cycle_angle :: "'ds tools \<Rightarrow> 'ds controller \<Rightarrow> real option" where
  "cycle_angle tools s =
     Option.bind (cycle_qe tools s) (\<lambda>qe. map_option (\<lambda>a. 2 * a) (acos_opt (fst qe)))"

text \<open>
  Wherever the error quaternion or the angle is \<open>None\<close>, the angle of the program is NaN
  (an infinite or NaN scalar part has no arc cosine), and so are the three entries of
  \<^verbatim>\<open>Frot\<close>, which multiply it, and every joint torque, which sums products with them.
\<close>

definition cycle_Frot :: "'ds tools \<Rightarrow> 'ds controller \<Rightarrow> vec3 option" where
  "cycle_Frot tools s =
     (case (cycle_axis tools s, cycle_angle tools s) of
        (Some axis, Some angle) \<Rightarrow>
          Some (v3_add (v3_scale (rotationalStiffness s * angle) axis)
                       (v3_scale (rotationalDamping s)
                          (v3_sub (cycle_omegad s) (cycle_omega tools s))))
      | _ \<Rightarrow> None)"

definition cycle_wrench :: "'ds tools \<Rightarrow> 'ds controller \<Rightarrow> vec option" where
  "cycle_wrench tools s =
     map_option (\<lambda>Frot. v3_list Frot @ v3_list (cycle_Flin tools s)) (cycle_Frot tools s)"

definition cycle_torques :: "'ds tools \<Rightarrow> 'ds controller \<Rightarrow> vec option" where
  "cycle_torques tools s =
     map_option (\<lambda>wrench. mat_vec (mtranspose (cycle_jac tools s)) wrench)
       (cycle_wrench tools s)"

definition cycle_jacPinv :: "'ds tools \<Rightarrow> 'ds controller \<Rightarrow> mat" where
  "cycle_jacPinv tools s =
     pseudo_inverse (jacobi_svd tools) (mtranspose (cycle_jac tools s)) True"

definition cycle_N :: "'ds tools \<Rightarrow> 'ds controller \<Rightarrow> mat" where
  "cycle_N tools s =
     mat_sub (identity_mat (n_joints s))
             (mat_mul (mtranspose (cycle_jac tools s)) (cycle_jacPinv tools s))"

definition cycle_nullspaceTorques :: "'ds tools \<Rightarrow> 'ds controller \<Rightarrow> vec" where
  "cycle_nullspaceTorques tools s =
     mat_vec (cycle_N tools s)
       (vec_sub
          (vec_sub (vec_scale (- jointLimitsGain s) (cycle_j s))
                   (vec_scale (desiredJointsGain s) (vec_sub (cycle_j s) (ref_j0 s))))
          (vec_scale (jointVelocitiesGain s) (cycle_jv s)))"

definition cycle_commanded_effort :: "'ds tools \<Rightarrow> 'ds controller \<Rightarrow> dbl list" where
  "cycle_commanded_effort tools s =
     (case cycle_torques tools s of
        None \<Rightarrow> replicate (n_joints s) NaN
      | Some torques \<Rightarrow>
          map Num (if useNullSpace s
                   then vec_add torques (cycle_nullspaceTorques tools s)
                   else torques))"

text \<open>
  The two loops over the joints that issue commands. The Active loop clamps each effort and
  stops at a joint without limits, where the program dereferences a null pointer. A NaN
  effort fails both comparisons of the clamp and is issued as it is.
\<close>

fun issue_efforts ::
    "'ds controller \<Rightarrow> dbl list \<Rightarrow> nat list \<Rightarrow> joint_handle list \<Rightarrow> fault + joint_handle list"
    where
  "issue_efforts s commanded_effort [] js = Inr js"
| "issue_efforts s commanded_effort (i # is) js =
     (case enforceJointLimits s (commanded_effort ! i) i of
        Inl e \<Rightarrow> Inl e
      | Inr c \<Rightarrow> issue_efforts s commanded_effort is (js[i := (js ! i)\<lparr>hw_command := c\<rparr>]))"

fun issue_zero :: "nat list \<Rightarrow> joint_handle list \<Rightarrow> joint_handle list" where
  "issue_zero [] js = js"
| "issue_zero (i # is) js = issue_zero is (js[i := (js ! i)\<lparr>hw_command := Num 0\<rparr>])"

text \<open>
  One control cycle. The faults are the places where the Active branch has no defined
  behaviour: Eigen operations on operands whose sizes do not agree (the Jacobian is not
  \<open>6 \<times> n_joints\<close>, or the reference posture has not \<open>n_joints\<close> entries), a read of
  \<^verbatim>\<open>commands[0..9]\<close> beyond the end of the buffered vector, and a joint without limits.
  The decomposition is taken to return matrices of the sizes Eigen documents.
\<close>

definition update :: "'ds tools \<Rightarrow> 'ds controller \<Rightarrow> fault + 'ds controller" where
  "update tools s =
     (if firstCommand s then
        (if \<not> rectangular 6 (n_joints s) (cycle_jac tools s) then Inl SizeMismatch
         else if length (commands_buffer s) < 10 then Inl OutOfBounds
         else if length (ref_j0 s) \<noteq> n_joints s then Inl SizeMismatch
         else
           (case issue_efforts s (cycle_commanded_effort tools s) [0..<n_joints s] (joints s) of
              Inl e \<Rightarrow> Inl e
            | Inr js \<Rightarrow>
                Inr (s\<lparr>ee_x := fst (tools_perform_fk tools (cycle_robot_state s)),
                       ee_q := cycle_q tools s,
                       cmd_vd := cycle_vd s,
                       cmd_omegad := cycle_omegad s,
                       cmd_qd := cycle_qd s,
                       passive_ds := cycle_passive_ds tools s,
                       joints := js\<rparr>)))
      else Inr (s\<lparr>joints := issue_zero [0..<n_joints s] (joints s)\<rparr>))"


section \<open>Example inputs\<close>

text \<open>
  A rotation by the angle with cosine \<open>-7/25\<close> and sine \<open>24/25\<close> about the first axis, and the
  half turn about the diagonal of the first two axes.
\<close>

definition rot_x_obtuse :: mat3 where
  "rot_x_obtuse = ((1, 0, 0), (0, - 7 / 25, - 24 / 25), (0, 24 / 25, - 7 / 25))"

text \<open>
  A \<open>2 \<times> 3\<close> matrix with singular values \<open>2\<close> and \<open>1\<close>, and a decomposition routine that
  returns identity factors and unit singular values, which is the decomposition of the
  matrices that have ones on their diagonal and zeros elsewhere.
\<close>

definition example_M :: mat where
  "example_M = [[2, 0, 0], [0, 1, 0]]"

definition example_svd :: svd_routine where
  "example_svd M = (identity_mat 2, [2, 1], identity_mat 3)"

definition unit_svd :: svd_routine where
  "unit_svd M =
     (identity_mat (length M), replicate (min (length M) (mcols M)) 1, identity_mat (mcols M))"

text \<open>
  A stand-in for the velocity-tracking primitive: it stores what it is given and answers
  with the velocity error scaled by its first eigenvalue.
\<close>

record ds_store =
  ds_eigvals :: vec
  ds_desired :: vec3
  ds_measured :: vec3

definition store_tools :: "ds_store tools" where
  "store_tools =
     \<lparr>tools_perform_fk = (\<lambda>rs. ((0, 0, 0), (1, 0, 0, 0))),
      tools_jacobian = (\<lambda>rs. map (\<lambda>k. map (\<lambda>i. if i = k then 1 else 0)
                                   [0..<length (rs_position rs)]) [0..<6]),
      jacobi_svd = unit_svd,
      passive_ds_SetParams = (\<lambda>d e st. st\<lparr>ds_eigvals := e\<rparr>),
      passive_ds_SetInput = (\<lambda>v st. st\<lparr>ds_desired := v\<rparr>),
      passive_ds_Update = (\<lambda>v st. st\<lparr>ds_measured := v\<rparr>),
      passive_ds_GetOutput = (\<lambda>st. v3_scale (case ds_eigvals st of [] \<Rightarrow> 0 | l # _ \<Rightarrow> l)
                                          (v3_sub (ds_desired st) (ds_measured st)))\<rparr>"

text \<open>
  A seven-joint arm as the constructor and \<^verbatim>\<open>init\<close> leave it: zero gains, the reference
  posture of the constructor, ten zeros in the command buffer, unit eigenvalues, no command
  received yet. The handles hold a stale command of \<open>5\<close>.
\<close>

definition iiwa_idle :: "ds_store controller" where
  "iiwa_idle =
     \<lparr>n_joints = 7,
      joints = replicate 7 \<lparr>hw_position = 0, hw_velocity = 0, hw_command = Num 5\<rparr>,
      joint_urdfs = [Some 320, Some 320, Some 176, Some 176, Some 110, Some 40, Some 40],
      firstCommand = False,
      useNullSpace = False,
      rotationalStiffness = 0,
      rotationalDamping = 0,
      jointLimitsGain = 0,
      desiredJointsGain = 0,
      jointVelocitiesGain = 0,
      ref_j0 = [- 0, 0.75, 0, - 1.65, 0, 0.76, 0],
      commands_buffer = replicate 10 0,
      passive_ds = \<lparr>ds_eigvals = [1, 1, 1], ds_desired = (0, 0, 0), ds_measured = (0, 0, 0)\<rparr>,
      ee_x = (0, 0, 0),
      ee_q = (1, 0, 0, 0),
      cmd_vd = (0, 0, 0),
      cmd_omegad = (0, 0, 0),
      cmd_qd = (1, 0, 0, 0)\<rparr>"

text \<open>
  The same arm in the Active state, with gains set and a command that asks for a linear
  velocity along the first axis, an angular velocity about the third and the orientation
  of a half turn about the first axis.
\<close>

definition iiwa_active :: "ds_store controller" where
  "iiwa_active =
     iiwa_idle\<lparr>firstCommand := True,
               useNullSpace := True,
               rotationalStiffness := 200,
               rotationalDamping := 2,
               desiredJointsGain := 26,
               commands_buffer := [1, 0, 0, 0, 0, 1 / 2, 0, 1, 0, 0]\<rparr>"

text \<open>
  A kinematics provider whose orientation depends on the joint positions it is given, and
  the arm in motion: the measured orientation is a rotation about the third axis by the
  angle with cosine \<open>-7/25\<close>, the joints move, and the command asks for that orientation
  followed by a half turn about the first axis.
\<close>

definition pose_tools :: "ds_store tools" where
  "pose_tools =
     store_tools\<lparr>tools_perform_fk :=
       (\<lambda>rs. ((0, 0, 0), (rs_position rs ! 0, 0, 0, rs_position rs ! 1)))\<rparr>"

definition iiwa_moving :: "ds_store controller" where
  "iiwa_moving =
     iiwa_active\<lparr>joints :=
       [\<lparr>hw_position = 3 / 5, hw_velocity = 1 / 10, hw_command = Num 0\<rparr>,
        \<lparr>hw_position = 4 / 5, hw_velocity = 2 / 10, hw_command = Num 0\<rparr>,
        \<lparr>hw_position = 0, hw_velocity = 3 / 10, hw_command = Num 0\<rparr>,
        \<lparr>hw_position = 0, hw_velocity = 4 / 10, hw_command = Num 0\<rparr>,
        \<lparr>hw_position = 0, hw_velocity = 5 / 10, hw_command = Num 0\<rparr>,
        \<lparr>hw_position = 0, hw_velocity = 6 / 10, hw_command = Num 0\<rparr>,
        \<lparr>hw_position = 0, hw_velocity = 7 / 10, hw_command = Num 0\<rparr>],
       commands_buffer := [1, 0, 0, 0, 0, 1 / 2, 0, 3 / 5, - 4 / 5, 0]\<rparr>"

text \<open>
  The Active arm with a commanded quaternion of norm two, which the command callback
  accepts, and a list of efforts of every kind.
\<close>

definition iiwa_nan :: "ds_store controller" where
  "iiwa_nan = iiwa_active\<lparr>commands_buffer := [1, 0, 0, 0, 0, 1 / 2, 2, 0, 0, 0]\<rparr>"

definition example_efforts :: "dbl list" where
  "example_efforts = [Num 400, Num (- 400), Num 100, NaN, PInf, MInf, Num 0]"


section \<open>Auxiliary facts\<close>

subsection \<open>Single precision\<close>

lemma round_even_int: "round_even (of_int k) = k"
  by (simp add: round_even_def)

lemma round_even_error: "\<bar>of_int (round_even y) - y\<bar> \<le> 1 / 2"
  unfolding round_even_def Let_def by (auto; linarith)

lemma float_ulp_pos: "0 < float_ulp x"
  by (simp add: float_ulp_def)

lemma float_exponent_eq:
  assumes "2 powr of_int e \<le> \<bar>x\<bar>" and "\<bar>x\<bar> < 2 powr of_int (e + 1)" and "- 126 \<le> e"
  shows "float_exponent x = e"
proof -
  have pos: "0 < \<bar>x\<bar>" using assms(1) by (smt (verit) powr_gt_zero)
  have "of_int e \<le> log 2 \<bar>x\<bar>" using assms(1) pos by (simp add: le_log_iff)
  moreover have "log 2 \<bar>x\<bar> < of_int (e + 1)" using assms(2) pos by (simp add: log_less_iff)
  ultimately have "\<lfloor>log 2 \<bar>x\<bar>\<rfloor> = e" by (simp add: floor_eq_iff)
  then show ?thesis using assms(3) by (simp add: float_exponent_def)
qed

lemma to_float_exact:
  assumes "2 powr of_int e \<le> \<bar>x\<bar>" and "\<bar>x\<bar> < 2 powr of_int (e + 1)" and "- 126 \<le> e"
    and "x = of_int k * 2 powr of_int (e - 23)"
  shows "to_float x = x"
proof -
  have e: "float_exponent x = e" by (rule float_exponent_eq[OF assms(1-3)])
  have u: "float_ulp x = 2 powr of_int (e - 23)" by (simp add: float_ulp_def e)
  have q: "x / float_ulp x = of_int k" unfolding u by (subst assms(4)) simp
  have "to_float x = of_int k * float_ulp x"
    unfolding to_float_def q round_even_int using assms(4) by simp
  then show ?thesis unfolding u using assms(4) by simp
qed

lemma to_float_error:
  assumes "2 powr (- 126) \<le> \<bar>x\<bar>"
  shows "\<bar>to_float x - x\<bar> \<le> \<bar>x\<bar> / 2 ^ 24"
proof -
  have pos: "0 < \<bar>x\<bar>" using assms by (smt (verit) powr_gt_zero)
  then have nz: "x \<noteq> 0" by simp
  have "(- 126::real) \<le> log 2 \<bar>x\<bar>" using assms pos by (simp add: le_log_iff)
  then have "- 126 \<le> \<lfloor>log 2 \<bar>x\<bar>\<rfloor>" by (simp add: le_floor_iff)
  then have e: "float_exponent x = \<lfloor>log 2 \<bar>x\<bar>\<rfloor>" by (simp add: float_exponent_def)
  have "of_int (float_exponent x) \<le> log 2 \<bar>x\<bar>" unfolding e by simp
  then have le: "2 powr of_int (float_exponent x) \<le> \<bar>x\<bar>" using pos by (simp add: le_log_iff)
  define u where "u = float_ulp x"
  have upos: "0 < u" by (simp add: u_def float_ulp_pos)
  have u24: "u * 2 ^ 23 = 2 powr of_int (float_exponent x)"
    by (simp add: u_def float_ulp_def powr_diff)
  have "to_float x - x = (of_int (round_even (x / u)) - x / u) * u"
    using nz upos by (simp add: to_float_def u_def[symmetric] left_diff_distrib)
  then have "\<bar>to_float x - x\<bar> = \<bar>of_int (round_even (x / u)) - x / u\<bar> * u"
    using upos by (simp add: abs_mult)
  also have "\<dots> \<le> 1 / 2 * u"
    using round_even_error[of "x / u"] upos by (simp add: mult_right_mono)
  also have "\<dots> = 2 powr of_int (float_exponent x) / 2 ^ 24" using u24[symmetric] by simp
  also have "\<dots> \<le> \<bar>x\<bar> / 2 ^ 24" using le by (simp add: divide_right_mono)
  finally show ?thesis .
qed

lemma to_float_near:
  assumes "1 / 4 \<le> \<bar>x\<bar>"
  shows "\<bar>to_float x - x\<bar> \<le> \<bar>x\<bar> / 1000"
proof -
  have "(2::real) powr (- 126) \<le> 2 powr (- 2)" by (rule powr_mono) simp_all
  also have "\<dots> = 1 / 4" by (simp add: powr_minus)
  finally have "2 powr (- 126) \<le> \<bar>x\<bar>" using assms by simp
  from to_float_error[OF this] have "\<bar>to_float x - x\<bar> \<le> \<bar>x\<bar> / 2 ^ 24" .
  also have "\<dots> \<le> \<bar>x\<bar> / 1000" by (rule divide_left_mono) simp_all
  finally show ?thesis .
qed

lemma to_float_interval:
  assumes "1 / 4 \<le> lo" and "lo \<le> x" and "x \<le> hi"
  shows "lo - hi / 1000 \<le> to_float x" and "to_float x \<le> hi + hi / 1000"
proof -
  have x: "\<bar>x\<bar> = x" using assms by simp
  have "\<bar>to_float x - x\<bar> \<le> \<bar>x\<bar> / 1000"
    by (rule to_float_near) (use assms in simp)
  then have "\<bar>to_float x - x\<bar> \<le> x / 1000" unfolding x .
  then show "lo - hi / 1000 \<le> to_float x" and "to_float x \<le> hi + hi / 1000"
    using assms by linarith+
qed

lemma to_float_0: "to_float 0 = 0"
  by (simp add: to_float_def)

lemma to_float_1: "to_float 1 = 1"
  by (rule to_float_exact[of 0 1 "2 ^ 23"]) (simp_all add: powr_minus)

lemma to_float_m1: "to_float (- 1) = - 1"
  by (rule to_float_exact[of 0 "- 1" "- (2 ^ 23)"]) (simp_all add: powr_minus)

lemma to_float_2: "to_float 2 = 2"
  by (rule to_float_exact[of 1 2 "2 ^ 23"]) (simp_all add: powr_minus)

lemma to_float_m2: "to_float (- 2) = - 2"
  by (rule to_float_exact[of 1 "- 2" "- (2 ^ 23)"]) (simp_all add: powr_minus)

lemma to_float_3: "to_float 3 = 3"
  by (rule to_float_exact[of 1 3 "3 * 2 ^ 22"]) (simp_all add: powr_minus)

lemma to_float_m3: "to_float (- 3) = - 3"
  by (rule to_float_exact[of 1 "- 3" "- (3 * 2 ^ 22)"]) (simp_all add: powr_minus)

lemma to_float_4: "to_float 4 = 4"
  by (rule to_float_exact[of 2 4 "2 ^ 23"]) (simp_all add: powr_minus)

lemma to_float_8: "to_float 8 = 8"
  by (rule to_float_exact[of 3 8 "2 ^ 23"]) (simp_all add: powr_minus)

lemma to_float_12: "to_float 12 = 12"
  by (rule to_float_exact[of 3 12 "3 * 2 ^ 22"]) (simp_all add: powr_minus)

lemma to_float_13: "to_float 13 = 13"
  by (rule to_float_exact[of 3 13 "13 * 2 ^ 20"]) (simp_all add: powr_minus)

lemmas to_float_small =
  to_float_0 to_float_1 to_float_m1 to_float_2 to_float_m2 to_float_3 to_float_m3 to_float_4
  to_float_8 to_float_12 to_float_13

text \<open>
  The literal \<^verbatim>\<open>1e-3f\<close>: the \<^verbatim>\<open>float\<close> nearest to \<open>1/1000\<close> lies above it.
\<close>

lemma float_1e_3: "to_float (1 / 1000) = 8589935 / 2 ^ 33"
proof -
  have e: "float_exponent (1 / 1000) = - 10"
    by (rule float_exponent_eq) (simp_all add: powr_minus)
  have u: "float_ulp (1 / 1000) = 1 / 2 ^ 33"
    by (simp add: float_ulp_def e powr_minus)
  have "round_even (1 / 1000 / (1 / 2 ^ 33)) = 8589935"
    by (simp add: round_even_def Let_def)
  then show ?thesis by (simp add: to_float_def u)
qed

lemma float_1e_3_above: "1 / 1000 < to_float (1 / 1000)"
  by (simp add: float_1e_3)


subsection \<open>Matrices as lists of rows\<close>

lemma mat3_cases:
  obtains r11 r12 r13 r21 r22 r23 r31 r32 r33 :: real
  where "R = ((r11, r12, r13), (r21, r22, r23), (r31, r32, r33))"
  by (cases R) auto

lemma mcols_rect: "rectangular m n M \<Longrightarrow> 0 < m \<Longrightarrow> mcols M = n"
  by (cases M) (simp_all add: rectangular_def mcols_def)

lemma setZero_rect: "rectangular m n M \<Longrightarrow> rectangular m n (setZero M)"
  by (simp add: rectangular_def setZero_def list_all_length)

lemma setZero_nth: "rectangular m n M \<Longrightarrow> i < m \<Longrightarrow> j < n \<Longrightarrow> setZero M ! i ! j = 0"
  by (simp add: rectangular_def setZero_def list_all_length)

lemma set_entry_rect: "rectangular m n S \<Longrightarrow> rectangular m n (set_entry S i j v)"
  by (cases "i < length S")
     (auto simp: rectangular_def set_entry_def list_all_length nth_list_update)

lemma set_entry_nth:
  "rectangular m n S \<Longrightarrow> a < m \<Longrightarrow> b < n \<Longrightarrow> i < m \<Longrightarrow> j < n \<Longrightarrow>
   set_entry S i j v ! a ! b = (if a = i \<and> b = j then v else S ! a ! b)"
  by (auto simp: rectangular_def set_entry_def list_all_length nth_list_update)

lemma mtranspose_rect:
  assumes "rectangular m n M" and "0 < m"
  shows "length (mtranspose M) = n"
    and "j < n \<Longrightarrow> mtranspose M ! j = map (\<lambda>r. r ! j) M"
  using assms by (simp_all add: mtranspose_def mcols_rect)

text \<open>
  The loop of \<^const>\<open>pseudo_inverse\<close> after \<open>k\<close> rounds: the first \<open>k\<close> diagonal entries are
  set, everything else is still zero.
\<close>

lemma fill_diag:
  assumes "rectangular m n M" and "k \<le> m" and "k \<le> n"
  shows "rectangular m n (fold (\<lambda>i S. set_entry S i i (g i)) [0..<k] (setZero M))
       \<and> (\<forall>a<m. \<forall>b<n. fold (\<lambda>i S. set_entry S i i (g i)) [0..<k] (setZero M) ! a ! b
                          = (if a = b \<and> a < k then g a else 0))"
  using assms(2,3)
proof (induction k)
  case 0
  then show ?case using assms(1) by (simp add: setZero_rect setZero_nth)
next
  case (Suc k)
  then have IH: "rectangular m n (fold (\<lambda>i S. set_entry S i i (g i)) [0..<k] (setZero M))"
    "\<forall>a<m. \<forall>b<n. fold (\<lambda>i S. set_entry S i i (g i)) [0..<k] (setZero M) ! a ! b
                          = (if a = b \<and> a < k then g a else 0)"
    by simp_all
  have k: "k < m" "k < n" using Suc.prems by simp_all
  show ?case
    using IH k by (auto simp: set_entry_rect set_entry_nth)
qed




subsection \<open>Branches of the quaternion conversion\<close>

lemma rotationMatrixToQuaternion_branch:
  "rotationMatrixToQuaternion R = branch_result (selected_branch R) R"
  by (cases "narrow R" rule: mat3_cases)
     (auto simp: rotationMatrixToQuaternion_def selected_branch_def)

subsection \<open>The loops that issue commands\<close>

lemma nth_update_field:
  "i < length js \<Longrightarrow> js[a := f (js ! a)] ! i = (if a = i then f (js ! i) else js ! i)"
  by (cases "a = i") simp_all

lemma issue_zero_length: "length (issue_zero is js) = length js"
  by (induction "is" arbitrary: js) simp_all

lemma issue_zero_nth:
  "i < length js \<Longrightarrow>
   issue_zero is js ! i = (if i \<in> set is then (js ! i)\<lparr>hw_command := Num 0\<rparr> else js ! i)"
  by (induction "is" arbitrary: js) (auto simp: nth_update_field)

lemma issue_zero_all:
  "length js = n \<Longrightarrow> issue_zero [0..<n] js = map (\<lambda>h. h\<lparr>hw_command := Num 0\<rparr>) js"
  by (rule nth_equalityI) (simp_all add: issue_zero_length issue_zero_nth)


subsection \<open>Command callback and tuning callback\<close>

lemma commandCB_rejects:
  "length data \<noteq> n_joints s \<Longrightarrow> length data \<noteq> 10 \<Longrightarrow>
   commandCB data s = (Some (DimensionError (length data)), s)"
  by (simp add: commandCB_def)

lemma commandCB_accepts:
  "length data = 10 \<or> length data = n_joints s \<Longrightarrow>
   commandCB data s = (None, s\<lparr>commands_buffer := data, firstCommand := True\<rparr>)"
  by (auto simp: commandCB_def)

lemma commandCB_stays_active: "firstCommand s \<Longrightarrow> firstCommand (snd (commandCB data s))"
  by (simp add: commandCB_def)

lemma reconfigure_keeps_latch:
  "firstCommand (dynamicReconfigureCallback tools cfg s) = firstCommand s
   \<and> commands_buffer (dynamicReconfigureCallback tools cfg s) = commands_buffer s"
  by (simp add: dynamicReconfigureCallback_def)

subsection \<open>Vectors and products\<close>



lemma mat_vec_transpose_length:
  "rectangular m n J \<Longrightarrow> 0 < m \<Longrightarrow> length (mat_vec (mtranspose J) w) = n"
  by (simp add: mat_vec_def mtranspose_rect)

lemma v3_list_length: "length (v3_list a @ v3_list b) = 6"
  by (simp add: v3_list_def split: prod.splits)

lemma vec_lengths:
  "length (vec_sub a b) = min (length a) (length b)"
  "length (vec_add a b) = min (length a) (length b)"
  "length (vec_scale c a) = length a"
  by (simp_all add: vec_sub_def vec_add_def vec_scale_def)

lemma vec_nths:
  "i < length a \<Longrightarrow> i < length b \<Longrightarrow> vec_sub a b ! i = a ! i - b ! i"
  "i < length a \<Longrightarrow> i < length b \<Longrightarrow> vec_add a b ! i = a ! i + b ! i"
  "i < length a \<Longrightarrow> vec_scale c a ! i = c * a ! i"
  by (simp_all add: vec_sub_def vec_add_def vec_scale_def)

lemma cycle_N_length:
  assumes "rectangular 6 (n_joints s) (cycle_jac tools s)"
  shows "length (cycle_N tools s) = n_joints s"
  using mtranspose_rect(1)[OF assms]
  by (simp add: cycle_N_def mat_sub_def mat_mul_def identity_mat_def)

subsection \<open>Clamping and the Active loop\<close>

lemma issue_efforts_result:
  assumes "\<forall>i\<in>set is. i < length js \<and> joint_urdfs s ! i \<noteq> None" and "distinct is"
  shows "\<exists>js'. issue_efforts s eff is js = Inr js' \<and> length js' = length js
           \<and> (\<forall>i\<in>set is. Inr (hw_command (js' ! i)) = enforceJointLimits s (eff ! i) i)
           \<and> (\<forall>k<length js. hw_position (js' ! k) = hw_position (js ! k)
                             \<and> hw_velocity (js' ! k) = hw_velocity (js ! k))
           \<and> (\<forall>k<length js. k \<notin> set is \<longrightarrow> js' ! k = js ! k)"
  using assms
proof (induction "is" arbitrary: js)
  case Nil
  then show ?case by simp
next
  case (Cons a "is")
  from Cons.prems obtain L where L: "joint_urdfs s ! a = Some L" and a: "a < length js"
    by auto
  obtain c where e: "enforceJointLimits s (eff ! a) a = Inr c"
    by (simp add: enforceJointLimits_def L)
  define js1 where "js1 = js[a := (js ! a)\<lparr>hw_command := c\<rparr>]"
  have len1: "length js1 = length js" by (simp add: js1_def)
  have "\<forall>i\<in>set is. i < length js1 \<and> joint_urdfs s ! i \<noteq> None" "distinct is"
    using Cons.prems by (simp_all add: len1)
  from Cons.IH[OF this] obtain js' where
    r: "issue_efforts s eff is js1 = Inr js'" "length js' = length js1"
       "\<forall>i\<in>set is. Inr (hw_command (js' ! i)) = enforceJointLimits s (eff ! i) i"
       "\<forall>k<length js1. hw_position (js' ! k) = hw_position (js1 ! k)
                             \<and> hw_velocity (js' ! k) = hw_velocity (js1 ! k)"
       "\<forall>k<length js1. k \<notin> set is \<longrightarrow> js' ! k = js1 ! k"
    by blast
  have anot: "a \<notin> set is" using Cons.prems by simp
  have ja: "js' ! a = js1 ! a" using r(5) a anot len1 by simp
  have "issue_efforts s eff (a # is) js = Inr js'"
    by (simp add: e r(1) js1_def[symmetric])
  moreover have "length js' = length js" using r(2) len1 by simp
  moreover have "\<forall>i\<in>set (a # is). Inr (hw_command (js' ! i)) = enforceJointLimits s (eff ! i) i"
    using r(3) ja a e by (simp add: js1_def)
  moreover have "\<forall>k<length js. hw_position (js' ! k) = hw_position (js ! k)
                             \<and> hw_velocity (js' ! k) = hw_velocity (js ! k)"
    using r(4) len1 by (simp add: js1_def nth_update_field)
  moreover have "\<forall>k<length js. k \<notin> set (a # is) \<longrightarrow> js' ! k = js ! k"
    using r(5) len1 by (simp add: js1_def)
  ultimately show ?case by blast
qed

subsection \<open>The orientation error and the primary torque\<close>









subsection \<open>Evaluation\<close>

text \<open>
  The equations that evaluate a control cycle on a concrete state.
\<close>

lemmas cycle_evals =
  cycle_robot_state_def cycle_jac_def cycle_j_def cycle_jv_def cycle_twist_def cycle_omega_def
  cycle_v_def cycle_vd_def cycle_omegad_def cycle_qd_def cycle_q_def cycle_passive_ds_def
  cycle_Flin_def cycle_Re_def cycle_qe_def cycle_axis_def cycle_angle_def cycle_Frot_def
  cycle_wrench_def cycle_torques_def cycle_jacPinv_def cycle_N_def cycle_nullspaceTorques_def
  cycle_commanded_effort_def

lemmas algebra_evals =
  mat_vec_def dot_def mtranspose_def mcols_def mat_mul_def mat_sub_def identity_mat_def
  vec_add_def vec_sub_def vec_scale_def v3_add_def v3_sub_def v3_scale_def v3_div_def v3_list_def
  norm3_def mat3_mul_def mat3_inverse_def mat3_det_def quaternionToRotationMatrix_def
  rotationMatrixToQuaternion_def quaternionToAxisAngle_def segment13_def tr_def tr1_def tr2_def
  tr3_def narrow_def branch_values_def fadd_def fsub_def acos_opt_def to_float_small float_1e_3
  pseudo_inverse_def lambda_of_def pinv_divisor_def set_entry_def setZero_def Let_def upt_rec

lemmas example_evals =
  iiwa_nan_def iiwa_moving_def iiwa_active_def iiwa_idle_def pose_tools_def store_tools_def unit_svd_def

section \<open>Properties\<close>

subsection \<open>Damped pseudo-inverse\<close>

text \<open>
  C10. With damping, every divisor \<open>\<sigma>\<^sup>2 + \<lambda>\<^sup>2\<close> from which \<^const>\<open>pseudo_inverse\<close> builds
  the damped singular-value matrix is at least \<open>\<lambda>\<^sup>2 = 0.04\<close>, hence positive and not zero,
  whatever the singular value \<open>\<sigma>\<close> is, zero included.
\<close>

theorem damped_divisor_positive:
  "lambda_of True * lambda_of True = 4 / 100
   \<and> 4 / 100 \<le> pinv_divisor (lambda_of True) s
   \<and> 0 < pinv_divisor (lambda_of True) s
   \<and> pinv_divisor (lambda_of True) s \<noteq> 0"
proof -
  have "0 \<le> s * s" by simp
  then have "0 < s * s + 1 / 25" by linarith
  then show ?thesis by (simp add: pinv_divisor_def lambda_of_def)
qed

text \<open>
  C4. For an \<open>m \<times> n\<close> matrix \<open>M\<close> whose decomposition is \<open>(U, \<sigma>, V)\<close>, \<^const>\<open>pseudo_inverse\<close>
  returns \<open>V \<cdot> \<Sigma>\<^sub>d \<cdot> U\<^sup>t\<close>, where \<open>\<Sigma>\<^sub>d\<close> is the \<open>n \<times> m\<close> diagonal matrix whose \<open>i\<close>-th entry is
  \<open>\<sigma>\<^sub>i / (\<sigma>\<^sub>i\<^sup>2 + \<lambda>\<^sup>2)\<close>, with \<open>\<lambda> = 0.2\<close> when damped and \<open>\<lambda> = 0\<close> otherwise. The decomposition
  has at most \<open>min m n\<close> singular values, as Eigen's has.
\<close>

theorem pseudo_inverse_is_V_Sigma_Ut:
  assumes "rectangular m n M" and "0 < m"
    and "svd M = (U, sv, V)" and "length sv \<le> m" and "length sv \<le> n"
  shows "pseudo_inverse svd M damped =
           mat_mul (mat_mul V (spec_diag_mat n m (spec_damped_values damped sv))) (mtranspose U)"
proof -
  define g where "g i = sv ! i / pinv_divisor (lambda_of damped) (sv ! i)" for i
  define S where "S = fold (\<lambda>i S. set_entry S i i (g i)) [0..<length sv] (setZero M)"
  have S: "rectangular m n S"
    "\<forall>a<m. \<forall>b<n. S ! a ! b = (if a = b \<and> a < length sv then g a else 0)"
    using fill_diag[OF assms(1,4,5), of g] by (simp_all add: S_def)
  have d: "\<And>i. i < length sv \<Longrightarrow> spec_damped_values damped sv ! i = g i"
    by (simp add: spec_damped_values_def g_def pinv_divisor_def lambda_of_def power2_eq_square)
  have dl: "length (spec_damped_values damped sv) = length sv"
    by (simp add: spec_damped_values_def)
  have lenS: "length S = m" using S(1) by (simp add: rectangular_def)
  have "mtranspose S = spec_diag_mat n m (spec_damped_values damped sv)"
  proof (rule nth_equalityI)
    show "length (mtranspose S) = length (spec_diag_mat n m (spec_damped_values damped sv))"
      using mtranspose_rect(1)[OF S(1) assms(2)] by (simp add: spec_diag_mat_def)
  next
    fix j assume "j < length (mtranspose S)"
    then have j: "j < n" using mtranspose_rect(1)[OF S(1) assms(2)] by simp
    show "mtranspose S ! j = spec_diag_mat n m (spec_damped_values damped sv) ! j"
    proof (rule nth_equalityI)
      show "length (mtranspose S ! j) = length (spec_diag_mat n m (spec_damped_values damped sv) ! j)"
        using j by (simp add: mtranspose_rect(2)[OF S(1) assms(2) j] spec_diag_mat_def lenS)
    next
      fix i assume "i < length (mtranspose S ! j)"
      then have i: "i < m"
        using j by (simp add: mtranspose_rect(2)[OF S(1) assms(2) j] lenS)
      have "mtranspose S ! j ! i = S ! i ! j"
        using i by (simp add: mtranspose_rect(2)[OF S(1) assms(2) j] lenS)
      also have "\<dots> = (if i = j \<and> i < length sv then g i else 0)"
        using S(2) i j by simp
      also have "\<dots> = spec_diag_mat n m (spec_damped_values damped sv) ! j ! i"
        using i j by (auto simp: spec_diag_mat_def d dl)
      finally show "mtranspose S ! j ! i = spec_diag_mat n m (spec_damped_values damped sv) ! j ! i" .
    qed
  qed
  then show ?thesis
    by (simp add: pseudo_inverse_def assms(3) Let_def S_def g_def)
qed

theorem pseudo_inverse_is_V_Sigma_Ut_witness:
  "rectangular 2 3 example_M \<and> (0::nat) < 2
   \<and> example_svd example_M = (identity_mat 2, [2, 1], identity_mat 3)
   \<and> length [2::real, 1] \<le> 2 \<and> length [2::real, 1] \<le> 3
   \<and> pseudo_inverse example_svd example_M True = [[50 / 101, 0], [0, 25 / 26], [0, 0]]"
proof -
  have h: "rectangular 2 3 example_M" "(0::nat) < 2"
    "example_svd example_M = (identity_mat 2, [2, 1], identity_mat 3)"
    "length [2::real, 1] \<le> 2" "length [2::real, 1] \<le> 3"
    by (simp_all add: rectangular_def example_M_def example_svd_def)
  have "pseudo_inverse example_svd example_M True = [[50 / 101, 0], [0, 25 / 26], [0, 0]]"
    unfolding pseudo_inverse_is_V_Sigma_Ut
        [of 2 3 example_M example_svd "identity_mat 2" "[2, 1]" "identity_mat 3" True, OF h]
    by (simp add: spec_diag_mat_def spec_damped_values_def identity_mat_def mat_mul_def mtranspose_def
        mcols_def dot_def upt_rec power2_eq_square)
  with h show ?thesis by simp
qed

subsection \<open>Rotation algebra\<close>

text \<open>
  C5, as the program has it. \<^const>\<open>rotationMatrixToQuaternion\<close> stores the entries of \<open>R\<close> in
  \<^verbatim>\<open>float\<close> variables and computes \<open>tr\<close>, \<open>tr1\<close>, \<open>tr2\<close>, \<open>tr3\<close> from them in \<^verbatim>\<open>float\<close>. It runs
  the branch of \<open>tr\<close> whenever this \<open>tr\<close> is positive, whether or not \<open>tr\<close> is the largest of
  the four quantities. When \<open>tr \<le> 0\<close> and one of \<open>tr1\<close>, \<open>tr2\<close>, \<open>tr3\<close> is strictly larger than
  the other two, it runs the branch of that quantity.
\<close>

theorem shepperd_branch_selection:
  assumes "in_float_range ((r11, r12, r13), (r21, r22, r23), (r31, r32, r33))"
  shows
    "let R = ((r11, r12, r13), (r21, r22, r23), (r31, r32, r33))
     in tr R = to_float (to_float (to_float r11 + to_float r22) + to_float r33)
      \<and> tr1 R = to_float (to_float (to_float r11 - to_float r22) - to_float r33)
      \<and> tr2 R = to_float (to_float (- to_float r11 + to_float r22) - to_float r33)
      \<and> tr3 R = to_float (to_float (- to_float r11 - to_float r22) + to_float r33)
      \<and> rotationMatrixToQuaternion R = branch_result (selected_branch R) R
      \<and> (0 < tr R \<longrightarrow> selected_branch R = BranchW)
      \<and> (tr R \<le> 0 \<and> tr2 R < tr1 R \<and> tr3 R < tr1 R \<longrightarrow> selected_branch R = BranchX)
      \<and> (tr R \<le> 0 \<and> tr1 R < tr2 R \<and> tr3 R < tr2 R \<longrightarrow> selected_branch R = BranchY)
      \<and> (tr R \<le> 0 \<and> tr1 R < tr3 R \<and> tr2 R < tr3 R \<longrightarrow> selected_branch R = BranchZ)"
  unfolding Let_def
  by (auto simp: rotationMatrixToQuaternion_branch selected_branch_def tr_def tr1_def tr2_def
      tr3_def narrow_def fadd_def fsub_def)

theorem shepperd_branch_selection_witness:
  "in_float_range ((1, 0, 0), (0, - 1, 0), (0, 0, - 1))
   \<and> in_float_range ((- 1, 0, 0), (0, 1, 0), (0, 0, - 1))
   \<and> in_float_range ((- 1, 0, 0), (0, - 1, 0), (0, 0, 1))
   \<and> in_float_range ((1, 0, 0), (0, 1, 0), (0, 0, 1))
   \<and> tr ((1, 0, 0), (0, 1, 0), (0, 0, 1)) = 3
   \<and> selected_branch ((1, 0, 0), (0, 1, 0), (0, 0, 1)) = BranchW
   \<and> tr ((1, 0, 0), (0, - 1, 0), (0, 0, - 1)) = - 1
   \<and> tr1 ((1, 0, 0), (0, - 1, 0), (0, 0, - 1)) = 3
   \<and> selected_branch ((1, 0, 0), (0, - 1, 0), (0, 0, - 1)) = BranchX
   \<and> rotationMatrixToQuaternion ((1, 0, 0), (0, - 1, 0), (0, 0, - 1)) = Some (0, 1, 0, 0)
   \<and> tr2 ((- 1, 0, 0), (0, 1, 0), (0, 0, - 1)) = 3
   \<and> selected_branch ((- 1, 0, 0), (0, 1, 0), (0, 0, - 1)) = BranchY
   \<and> tr3 ((- 1, 0, 0), (0, - 1, 0), (0, 0, 1)) = 3
   \<and> selected_branch ((- 1, 0, 0), (0, - 1, 0), (0, 0, 1)) = BranchZ"
proof -
  have h: "in_float_range ((1, 0, 0), (0, - 1, 0), (0, 0, - 1))"
    "in_float_range ((- 1, 0, 0), (0, 1, 0), (0, 0, - 1))"
    "in_float_range ((- 1, 0, 0), (0, - 1, 0), (0, 0, 1))"
    "in_float_range ((1, 0, 0), (0, 1, 0), (0, 0, 1))"
    by (simp_all add: in_float_range_def)
  show ?thesis
    using shepperd_branch_selection[OF h(1)] shepperd_branch_selection[OF h(2)]
      shepperd_branch_selection[OF h(3)] shepperd_branch_selection[OF h(4)] h
    by (simp add: Let_def to_float_small branch_values_def narrow_def fadd_def fsub_def)
qed

text \<open>
  C5, as stated, fails: \<^const>\<open>rot_x_obtuse\<close> is a rotation matrix for which the program
  computes \<open>tr\<close> near \<open>11/25\<close> and \<open>tr1\<close> near \<open>39/25\<close>; the branch of \<open>tr\<close> runs although \<open>tr1\<close>
  is larger.
\<close>

theorem shepperd_branch_not_maximal:
  "is_rotation rot_x_obtuse
   \<and> selected_branch rot_x_obtuse = BranchW
   \<and> branch_quantity (selected_branch rot_x_obtuse) rot_x_obtuse
       < branch_quantity BranchX rot_x_obtuse"
proof -
  define a where "a = to_float (- 7 / 25)"
  have "\<bar>a - (- 7 / 25)\<bar> \<le> \<bar>- 7 / 25\<bar> / 1000"
    unfolding a_def by (rule to_float_near) simp
  then have a: "- 2803 / 10000 \<le> a" "a \<le> - 2797 / 10000" by linarith+
  define b where "b = to_float (1 + a)"
  have b: "718 / 1000 \<le> b" "b \<le> 722 / 1000"
    using to_float_interval[of "7197 / 10000" "1 + a" "7203 / 10000"] a
    unfolding b_def by simp_all
  define t where "t = to_float (b + a)"
  have t: "43 / 100 \<le> t" "t \<le> 45 / 100"
    using to_float_interval[of "4377 / 10000" "b + a" "4423 / 10000"] a b
    unfolding t_def by simp_all
  define c where "c = to_float (1 - a)"
  have c: "127 / 100 \<le> c" "c \<le> 129 / 100"
    using to_float_interval[of "12797 / 10000" "1 - a" "12803 / 10000"] a
    unfolding c_def by simp_all
  define u where "u = to_float (c - a)"
  have u: "154 / 100 \<le> u"
    using to_float_interval[of "15497 / 10000" "c - a" "15703 / 10000"] a c
    unfolding u_def by simp
  have trv: "tr rot_x_obtuse = t"
    by (simp add: tr_def narrow_def rot_x_obtuse_def fadd_def to_float_small a_def b_def t_def)
  have tr1v: "tr1 rot_x_obtuse = u"
    by (simp add: tr1_def narrow_def rot_x_obtuse_def fsub_def to_float_small a_def c_def u_def)
  have pos: "0 < tr rot_x_obtuse" unfolding trv using t by linarith
  have less: "tr rot_x_obtuse < tr1 rot_x_obtuse" unfolding trv tr1v using t u by linarith
  have rot: "is_rotation rot_x_obtuse"
    by (simp add: rot_x_obtuse_def is_rotation_def mat3_mul_def mat3_transpose_def
        mat3_identity_def mat3_det_def)
  show ?thesis using pos less rot by (simp add: selected_branch_def)
qed

text \<open>
  C9, as the program has it. \<^const>\<open>quaternionToAxisAngle\<close> returns the angle \<open>2 \<cdot> acos (q.w)\<close>,
  which is NaN for \<open>q.w\<close> outside \<open>[-1, 1]\<close>. The norm of the vector part is compared with
  the \<^verbatim>\<open>float\<close> literal \<^verbatim>\<open>1e-3f\<close>, which is \<open>8589935 / 2\<^sup>3\<^sup>3\<close> and lies above \<open>1/1000\<close>: the axis
  is the vector part divided by its norm, a division by a non-zero number, when the norm
  is at least that value, and the vector part itself when the norm is below it. For
  \<open>q = (1, 0, 0, 0)\<close> the result is the zero vector and the angle \<open>0\<close>.
\<close>

theorem quaternionToAxisAngle_spec:
  "let n = sqrt (q1 * q1 + q2 * q2 + q3 * q3);
       result = quaternionToAxisAngle (q0, q1, q2, q3)
   in snd result = (if - 1 \<le> q0 \<and> q0 \<le> 1 then Some (2 * arccos q0) else None)
    \<and> (8589935 / 2 ^ 33 \<le> n \<longrightarrow> n \<noteq> 0 \<and> fst result = (q1 / n, q2 / n, q3 / n))
    \<and> (n < 8589935 / 2 ^ 33 \<longrightarrow> fst result = (q1, q2, q3))
    \<and> to_float (1 / 1000) = 8589935 / 2 ^ 33
    \<and> quaternionToAxisAngle (1, 0, 0, 0) = ((0, 0, 0), Some 0)"
  by (auto simp: quaternionToAxisAngle_def Let_def v3_div_def segment13_def norm3_def
      acos_opt_def float_1e_3)

theorem quaternionToAxisAngle_spec_witness:
  "8589935 / 2 ^ 33 \<le> sqrt (3 * 3 + 4 * 4 + 12 * 12 :: real)
   \<and> quaternionToAxisAngle (0, 3, 4, 12) = ((3 / 13, 4 / 13, 12 / 13), Some pi)
   \<and> sqrt (1 / 2000 * (1 / 2000) + 0 * 0 + 0 * 0 :: real) < 8589935 / 2 ^ 33
   \<and> quaternionToAxisAngle (1, 1 / 2000, 0, 0) = ((1 / 2000, 0, 0), Some 0)
   \<and> quaternionToAxisAngle (2, 0, 1, 0) = ((0, 1, 0), None)"
proof -
  have "sqrt (13 * 13 :: real) = 13" by (simp only: real_sqrt_abs2 abs_of_nonneg)
  then have n1: "sqrt (3 * 3 + 4 * 4 + 12 * 12 :: real) = 13" by simp
  have "sqrt (1 / 2000 * (1 / 2000) :: real) = 1 / 2000" by (simp only: real_sqrt_abs2 abs_of_nonneg)
  then have n2: "sqrt (1 / 2000 * (1 / 2000) + 0 * 0 + 0 * 0 :: real) = 1 / 2000" by simp
  have n3: "sqrt (0 * 0 + 1 * 1 + 0 * 0 :: real) = 1" by simp
  show ?thesis
    using quaternionToAxisAngle_spec[of 3 4 12 0] quaternionToAxisAngle_spec[of "1 / 2000" 0 0 1]
      quaternionToAxisAngle_spec[of 0 1 0 2]
    unfolding Let_def n1 n2 n3 by (simp add: prod_eq_iff)
qed

text \<open>
  C9, as stated, fails for norms between \<open>1/1000\<close> and the \<^verbatim>\<open>float\<close> literal: the vector part
  \<open>(1/1000, 0, 0)\<close> has norm \<open>1/1000\<close>, which is at least \<open>1e-3\<close>, and is returned as it is, not
  divided by its norm.
\<close>

theorem axis_not_normalised_at_threshold:
  "1 / 1000 \<le> norm3 (segment13 (1 / 2, 1 / 1000, 0, 0))
   \<and> fst (quaternionToAxisAngle (1 / 2, 1 / 1000, 0, 0)) = (1 / 1000, 0, 0)
   \<and> fst (quaternionToAxisAngle (1 / 2, 1 / 1000, 0, 0))
       \<noteq> v3_div (segment13 (1 / 2, 1 / 1000, 0, 0)) (norm3 (segment13 (1 / 2, 1 / 1000, 0, 0)))"
proof -
  have "sqrt (1 / 1000 * (1 / 1000) :: real) = 1 / 1000" by (simp only: real_sqrt_abs2 abs_of_nonneg)
  then have n: "norm3 (segment13 (1 / 2, 1 / 1000, 0, 0)) = 1 / 1000"
    by (simp add: norm3_def segment13_def)
  show ?thesis
    unfolding quaternionToAxisAngle_def Let_def n
    by (simp add: float_1e_3 segment13_def v3_div_def)
qed

subsection \<open>Control cycle\<close>

text \<open>
  C8. In the Idle state a control cycle sets the command of every one of the \<open>n_joints\<close>
  handles to \<open>0\<close>, whatever the sensors read, and changes nothing else: the result does
  not depend on the kinematics provider or on the decomposition, and the state of the
  velocity-tracking primitive is the one before.
\<close>

theorem idle_cycle_issues_zero:
  assumes "\<not> firstCommand s" and "initialised s"
  shows "update tools s = Inr (s\<lparr>joints := map (\<lambda>h. h\<lparr>hw_command := Num 0\<rparr>) (joints s)\<rparr>)
         \<and> length (map (\<lambda>h. h\<lparr>hw_command := Num 0\<rparr>) (joints s)) = n_joints s
         \<and> (\<forall>i<n_joints s. hw_command (map (\<lambda>h. h\<lparr>hw_command := Num 0\<rparr>) (joints s) ! i) = Num 0)"
  using assms by (simp add: update_def initialised_def issue_zero_all)

theorem idle_cycle_issues_zero_witness:
  "\<not> firstCommand iiwa_idle \<and> initialised iiwa_idle
   \<and> update store_tools iiwa_idle
       = Inr (iiwa_idle\<lparr>joints :=
                replicate 7 \<lparr>hw_position = 0, hw_velocity = 0, hw_command = Num 0\<rparr>\<rparr>)"
proof -
  have h: "\<not> firstCommand iiwa_idle" "initialised iiwa_idle"
    by (simp_all add: iiwa_idle_def initialised_def)
  show ?thesis
    using idle_cycle_issues_zero[OF h, of store_tools] h
    by (simp add: iiwa_idle_def)
qed

subsection \<open>Command callback\<close>

text \<open>
  C1. The callback also accepts a payload of \<open>n_joints\<close> values: on the seven-joint arm in
  Idle, seven zeros are written to the buffer without a diagnostic and the controller
  becomes Active; the next cycle then reads \<^verbatim>\<open>commands[7]\<close> to \<^verbatim>\<open>commands[9]\<close> beyond the end
  of the buffered vector.
\<close>

theorem commandCB_accepts_joint_sized_payload:
  "commandCB (replicate 7 0) iiwa_idle
     = (None, iiwa_idle\<lparr>commands_buffer := replicate 7 0, firstCommand := True\<rparr>)
   \<and> update store_tools (snd (commandCB (replicate 7 0) iiwa_idle)) = Inl OutOfBounds"
  by (simp add: commandCB_def iiwa_idle_def update_def cycle_jac_def cycle_robot_state_def
      store_tools_def rectangular_def list_all_iff)


subsection \<open>Tuning callback\<close>

text \<open>
  C6, as the program has it. A tuning update sets each of the five gain scalars and the
  nullspace switch to its configured value and hands the velocity-tracking primitive the
  dimension \<open>3\<close> and the eigenvalues \<open>(gain0, gain1, gain1)\<close>: two configured gains, the
  second one used for the second and the third eigenvalue. Nothing else of the controller
  changes, and the next control cycle computes with the new values.
\<close>

theorem reconfigure_forwards_gains:
  "let s' = dynamicReconfigureCallback tools cfg s;
       eig = [config_gain0 cfg, config_gain1 cfg, config_gain1 cfg]
   in rotationalStiffness s' = config_rotationalStiffness cfg
    \<and> rotationalDamping s' = config_rotationalDamping cfg
    \<and> jointLimitsGain s' = config_jointLimitsGain cfg
    \<and> desiredJointsGain s' = config_desiredJointsGain cfg
    \<and> jointVelocitiesGain s' = config_jointVelocitiesGain cfg
    \<and> useNullSpace s' = config_useNullSpace cfg
    \<and> passive_ds s' = passive_ds_SetParams tools 3 eig (passive_ds s)
    \<and> s' = s\<lparr>passive_ds := passive_ds s',
             rotationalStiffness := rotationalStiffness s',
             rotationalDamping := rotationalDamping s',
             useNullSpace := useNullSpace s',
             jointLimitsGain := jointLimitsGain s',
             desiredJointsGain := desiredJointsGain s',
             jointVelocitiesGain := jointVelocitiesGain s'\<rparr>
    \<and> cycle_Frot tools s' =
        (case (cycle_axis tools s, cycle_angle tools s) of
           (Some axis, Some angle) \<Rightarrow>
             Some (v3_add (v3_scale (config_rotationalStiffness cfg * angle) axis)
                          (v3_scale (config_rotationalDamping cfg)
                             (v3_sub (cycle_omegad s) (cycle_omega tools s))))
         | _ \<Rightarrow> None)
    \<and> cycle_Flin tools s' =
        passive_ds_GetOutput tools
          (passive_ds_Update tools (cycle_v tools s)
             (passive_ds_SetInput tools (cycle_vd s)
                (passive_ds_SetParams tools 3 eig (passive_ds s))))
    \<and> cycle_nullspaceTorques tools s' =
        mat_vec (cycle_N tools s)
          (vec_sub
             (vec_sub (vec_scale (- config_jointLimitsGain cfg) (cycle_j s))
                      (vec_scale (config_desiredJointsGain cfg) (vec_sub (cycle_j s) (ref_j0 s))))
             (vec_scale (config_jointVelocitiesGain cfg) (cycle_jv s)))
    \<and> cycle_commanded_effort tools s' =
        (case cycle_torques tools s' of
           None \<Rightarrow> replicate (n_joints s) NaN
         | Some torques \<Rightarrow>
             map Num (if config_useNullSpace cfg
                      then vec_add torques (cycle_nullspaceTorques tools s')
                      else torques))"
proof -
  define s' where "s' = dynamicReconfigureCallback tools cfg s"
  have f: "rotationalStiffness s' = config_rotationalStiffness cfg"
    "rotationalDamping s' = config_rotationalDamping cfg"
    "jointLimitsGain s' = config_jointLimitsGain cfg"
    "desiredJointsGain s' = config_desiredJointsGain cfg"
    "jointVelocitiesGain s' = config_jointVelocitiesGain cfg"
    "useNullSpace s' = config_useNullSpace cfg"
    "passive_ds s' = passive_ds_SetParams tools 3
                       [config_gain0 cfg, config_gain1 cfg, config_gain1 cfg] (passive_ds s)"
    "n_joints s' = n_joints s" "joints s' = joints s" "commands_buffer s' = commands_buffer s"
    "ref_j0 s' = ref_j0 s"
    by (simp_all add: s'_def dynamicReconfigureCallback_def eigvals_vec_def)
  have frame: "s' = s\<lparr>passive_ds := passive_ds s',
             rotationalStiffness := rotationalStiffness s',
             rotationalDamping := rotationalDamping s',
             useNullSpace := useNullSpace s',
             jointLimitsGain := jointLimitsGain s',
             desiredJointsGain := desiredJointsGain s',
             jointVelocitiesGain := jointVelocitiesGain s'\<rparr>"
    by (simp add: s'_def dynamicReconfigureCallback_def)
  have rs: "cycle_robot_state s' = cycle_robot_state s"
    by (simp add: cycle_robot_state_def f)
  have k: "cycle_jac tools s' = cycle_jac tools s" "cycle_q tools s' = cycle_q tools s"
    "cycle_qd s' = cycle_qd s" "cycle_vd s' = cycle_vd s" "cycle_omegad s' = cycle_omegad s"
    "cycle_j s' = cycle_j s" "cycle_jv s' = cycle_jv s"
    by (simp_all add: cycle_jac_def cycle_q_def cycle_qd_def cycle_vd_def cycle_omegad_def
        cycle_j_def cycle_jv_def rs f)
  have tw: "cycle_omega tools s' = cycle_omega tools s" "cycle_v tools s' = cycle_v tools s"
    by (simp_all add: cycle_omega_def cycle_v_def cycle_twist_def k)
  have qe: "cycle_qe tools s' = cycle_qe tools s"
    by (simp add: cycle_qe_def cycle_Re_def k)
  have aa: "cycle_axis tools s' = cycle_axis tools s" "cycle_angle tools s' = cycle_angle tools s"
    by (simp_all add: cycle_axis_def cycle_angle_def qe)
  have N: "cycle_N tools s' = cycle_N tools s"
    by (simp add: cycle_N_def cycle_jacPinv_def k f)
  have g1: "cycle_Frot tools s' =
        (case (cycle_axis tools s, cycle_angle tools s) of
           (Some axis, Some angle) \<Rightarrow>
             Some (v3_add (v3_scale (config_rotationalStiffness cfg * angle) axis)
                          (v3_scale (config_rotationalDamping cfg)
                             (v3_sub (cycle_omegad s) (cycle_omega tools s))))
         | _ \<Rightarrow> None)"
    by (simp add: cycle_Frot_def aa tw k f split: option.splits)
  have g2: "cycle_Flin tools s' =
        passive_ds_GetOutput tools
          (passive_ds_Update tools (cycle_v tools s)
             (passive_ds_SetInput tools (cycle_vd s)
                (passive_ds_SetParams tools 3
                   [config_gain0 cfg, config_gain1 cfg, config_gain1 cfg] (passive_ds s))))"
    by (simp add: cycle_Flin_def cycle_passive_ds_def tw k f)
  have g3: "cycle_nullspaceTorques tools s' =
        mat_vec (cycle_N tools s)
          (vec_sub
             (vec_sub (vec_scale (- config_jointLimitsGain cfg) (cycle_j s))
                      (vec_scale (config_desiredJointsGain cfg) (vec_sub (cycle_j s) (ref_j0 s))))
             (vec_scale (config_jointVelocitiesGain cfg) (cycle_jv s)))"
    by (simp add: cycle_nullspaceTorques_def N k f)
  have g4: "cycle_commanded_effort tools s' =
        (case cycle_torques tools s' of
           None \<Rightarrow> replicate (n_joints s) NaN
         | Some torques \<Rightarrow>
             map Num (if config_useNullSpace cfg
                      then vec_add torques (cycle_nullspaceTorques tools s')
                      else torques))"
    by (simp add: cycle_commanded_effort_def f split: option.splits)
  show ?thesis
    unfolding Let_def s'_def[symmetric]
    by (intro conjI f(1-7) frame g1 g2 g3 g4)
qed

text \<open>
  C6, as stated, fails: the three eigenvalues are not independently settable. No
  configuration makes the callback hand over the eigenvalues \<open>(1, 2, 3)\<close>, and the
  primitive that stores what it is given never holds them.
\<close>

theorem eigenvalues_not_independent:
  "\<not> (\<exists>cfg. eigvals_vec cfg = [1, 2, 3])
   \<and> \<not> (\<exists>cfg. ds_eigvals (passive_ds (dynamicReconfigureCallback store_tools cfg iiwa_idle))
              = [1, 2, 3])"
  by (simp add: eigvals_vec_def dynamicReconfigureCallback_def store_tools_def)

subsection \<open>Active cycle\<close>



text \<open>
  C3. In an Active cycle the secondary torque is
  \<open>N \<cdot> (- jointLimitsGain \<cdot> q - desiredPostureGain \<cdot> (q - referencePosture) - jointVelocityGain \<cdot> q\<dot>)\<close>
  with \<open>N = I - J\<^sup>t \<cdot> pseudoInverse (J\<^sup>t)\<close>, the damped pseudo-inverse being applied to
  the transposed Jacobian. The torque before clamping is primary plus secondary, entry by
  entry, when the nullspace switch is on, and the primary torque alone when it is off;
  where the primary torque is NaN, so is the torque before clamping.
\<close>

theorem nullspace_torque_and_total:
  assumes "firstCommand s" and "initialised s"
    and "rectangular 6 (n_joints s) (cycle_jac tools s)"
    and "length (ref_j0 s) = n_joints s"
  shows
    "let Jt = mtranspose (tools_jacobian tools (cycle_robot_state s));
         N = mat_sub (identity_mat (n_joints s))
                     (mat_mul Jt (pseudo_inverse (jacobi_svd tools) Jt True));
         qj = map (\<lambda>i. hw_position (joints s ! i)) [0..<n_joints s];
         qv = map (\<lambda>i. hw_velocity (joints s ! i)) [0..<n_joints s];
         objective = vec_sub (vec_sub (vec_scale (- jointLimitsGain s) qj)
                                      (vec_scale (desiredJointsGain s) (vec_sub qj (ref_j0 s))))
                             (vec_scale (jointVelocitiesGain s) qv);
         secondary = mat_vec N objective
     in cycle_nullspaceTorques tools s = secondary
        \<and> length objective = n_joints s
        \<and> (\<forall>i<n_joints s. objective ! i =
              - jointLimitsGain s * hw_position (joints s ! i)
              - desiredJointsGain s * (hw_position (joints s ! i) - ref_j0 s ! i)
              - jointVelocitiesGain s * hw_velocity (joints s ! i))
        \<and> length secondary = n_joints s
        \<and> (case cycle_torques tools s of
              Some primary \<Rightarrow>
                length primary = n_joints s
                \<and> cycle_commanded_effort tools s =
                    map Num (if useNullSpace s then vec_add primary secondary else primary)
                \<and> (useNullSpace s \<longrightarrow>
                     (\<forall>i<n_joints s.
                        cycle_commanded_effort tools s ! i = Num (primary ! i + secondary ! i)))
            | None \<Rightarrow> cycle_commanded_effort tools s = replicate (n_joints s) NaN)"
proof -
  have sec: "cycle_nullspaceTorques tools s =
      mat_vec (mat_sub (identity_mat (n_joints s))
                 (mat_mul (mtranspose (tools_jacobian tools (cycle_robot_state s)))
                    (pseudo_inverse (jacobi_svd tools)
                       (mtranspose (tools_jacobian tools (cycle_robot_state s))) True)))
        (vec_sub (vec_sub (vec_scale (- jointLimitsGain s) (cycle_j s))
                          (vec_scale (desiredJointsGain s) (vec_sub (cycle_j s) (ref_j0 s))))
                 (vec_scale (jointVelocitiesGain s) (cycle_jv s)))"
    by (simp add: cycle_nullspaceTorques_def cycle_N_def cycle_jacPinv_def cycle_jac_def)
  have lj: "length (cycle_j s) = n_joints s" "length (cycle_jv s) = n_joints s"
    by (simp_all add: cycle_j_def cycle_jv_def)
  have lo: "length (vec_sub (vec_sub (vec_scale (- jointLimitsGain s) (cycle_j s))
                          (vec_scale (desiredJointsGain s) (vec_sub (cycle_j s) (ref_j0 s))))
                 (vec_scale (jointVelocitiesGain s) (cycle_jv s))) = n_joints s"
    by (simp add: vec_lengths lj assms(4))
  have no: "\<forall>i<n_joints s.
        vec_sub (vec_sub (vec_scale (- jointLimitsGain s) (cycle_j s))
                          (vec_scale (desiredJointsGain s) (vec_sub (cycle_j s) (ref_j0 s))))
                 (vec_scale (jointVelocitiesGain s) (cycle_jv s)) ! i =
              - jointLimitsGain s * hw_position (joints s ! i)
              - desiredJointsGain s * (hw_position (joints s ! i) - ref_j0 s ! i)
              - jointVelocitiesGain s * hw_velocity (joints s ! i)"
    by (simp add: vec_nths vec_lengths lj assms(4)) (simp add: cycle_j_def cycle_jv_def)
  have ls: "length (cycle_nullspaceTorques tools s) = n_joints s"
    using cycle_N_length[OF assms(3)] by (simp add: cycle_nullspaceTorques_def mat_vec_def)
  have tot: "case cycle_torques tools s of
              Some primary \<Rightarrow>
                length primary = n_joints s
                \<and> cycle_commanded_effort tools s =
                    map Num (if useNullSpace s
                             then vec_add primary (cycle_nullspaceTorques tools s) else primary)
                \<and> (useNullSpace s \<longrightarrow>
                     (\<forall>i<n_joints s. cycle_commanded_effort tools s ! i
                         = Num (primary ! i + cycle_nullspaceTorques tools s ! i)))
            | None \<Rightarrow> cycle_commanded_effort tools s = replicate (n_joints s) NaN"
  proof (cases "cycle_torques tools s")
    case None
    then show ?thesis by (simp add: cycle_commanded_effort_def)
  next
    case (Some primary)
    then obtain wrench where "primary = mat_vec (mtranspose (cycle_jac tools s)) wrench"
      by (auto simp: cycle_torques_def)
    then have lp: "length primary = n_joints s"
      using mat_vec_transpose_length[OF assms(3)] by simp
    show ?thesis
      using Some lp ls by (simp add: cycle_commanded_effort_def vec_nths vec_lengths)
  qed
  show ?thesis
    unfolding Let_def sec[symmetric, unfolded cycle_j_def cycle_jv_def]
    using lo[unfolded cycle_j_def cycle_jv_def] no[unfolded cycle_j_def cycle_jv_def] ls tot
    by simp
qed

theorem nullspace_torque_and_total_witness:
  "firstCommand iiwa_active \<and> initialised iiwa_active
   \<and> rectangular 6 (n_joints iiwa_active) (cycle_jac store_tools iiwa_active)
   \<and> length (ref_j0 iiwa_active) = n_joints iiwa_active
   \<and> useNullSpace iiwa_active
   \<and> length (cycle_nullspaceTorques store_tools iiwa_active) = 7
   \<and> cycle_nullspaceTorques store_tools iiwa_active = [0, 3 / 4, 0, - 33 / 20, 0, 19 / 25, 0]
   \<and> cycle_torques store_tools iiwa_active = Some [200 * pi, 0, 1, 1, 0, 0, 0]
   \<and> cycle_commanded_effort store_tools iiwa_active
       = map Num [200 * pi, 3 / 4, 1, - 13 / 20, 0, 19 / 25, 0]"
proof -
  have h: "firstCommand iiwa_active" "initialised iiwa_active"
    "rectangular 6 (n_joints iiwa_active) (cycle_jac store_tools iiwa_active)"
    "length (ref_j0 iiwa_active) = n_joints iiwa_active"
    by (simp_all add: example_evals initialised_def cycle_jac_def cycle_robot_state_def
        rectangular_def list_all_iff)
  have u: "useNullSpace iiwa_active" by (simp add: example_evals)
  have "length (cycle_nullspaceTorques store_tools iiwa_active) = n_joints iiwa_active"
    using nullspace_torque_and_total[OF h] by (simp add: Let_def)
  then have l: "length (cycle_nullspaceTorques store_tools iiwa_active) = 7"
    by (simp add: example_evals)
  have n: "cycle_nullspaceTorques store_tools iiwa_active
             = [0, 3 / 4, 0, - 33 / 20, 0, 19 / 25, 0]"
    by (simp add: cycle_evals algebra_evals example_evals)
  have t: "cycle_torques store_tools iiwa_active = Some [200 * pi, 0, 1, 1, 0, 0, 0]"
    by (simp add: cycle_evals algebra_evals example_evals)
  have c: "cycle_commanded_effort store_tools iiwa_active
             = map Num [200 * pi, 3 / 4, 1, - 13 / 20, 0, 19 / 25, 0]"
    unfolding cycle_commanded_effort_def t n using u by (simp add: vec_add_def)
  show ?thesis using h u l n t c by simp
qed

text \<open>
  A commanded quaternion \<open>(2, 0, 0, 0)\<close> gives the error quaternion the scalar part
  \<open>\<surd>13 / 2\<close>, which has no arc cosine: the torque of every joint is NaN, passes the clamp
  and is issued.
\<close>

lemma nan_command_is_issued:
  "cycle_qe store_tools iiwa_nan = Some (sqrt 13 / 2, 0, 0, 0)
   \<and> cycle_angle store_tools iiwa_nan = None
   \<and> cycle_commanded_effort store_tools iiwa_nan = replicate 7 NaN
   \<and> update store_tools iiwa_nan
       = Inr (iiwa_nan\<lparr>cmd_vd := (1, 0, 0), cmd_omegad := (0, 0, 1 / 2), cmd_qd := (2, 0, 0, 0),
                passive_ds := \<lparr>ds_eigvals = [1, 1, 1], ds_desired = (1, 0, 0),
                                ds_measured = (0, 0, 0)\<rparr>,
                joints := replicate 7 \<lparr>hw_position = 0, hw_velocity = 0, hw_command = NaN\<rparr>\<rparr>)"
proof -
  have "2 < sqrt 13" by (rule real_less_rsqrt) simp
  then have big: "\<not> sqrt 13 \<le> 2" by simp
  have qe: "cycle_qe store_tools iiwa_nan = Some (sqrt 13 / 2, 0, 0, 0)"
    by (simp add: cycle_evals algebra_evals example_evals)
  have an: "cycle_angle store_tools iiwa_nan = None"
    by (simp add: cycle_angle_def qe acos_opt_def big)
  have "cycle_Frot store_tools iiwa_nan = None"
    by (simp add: cycle_Frot_def an split: option.splits)
  then have "cycle_torques store_tools iiwa_nan = None"
    by (simp add: cycle_torques_def cycle_wrench_def)
  then have ce: "cycle_commanded_effort store_tools iiwa_nan = replicate 7 NaN"
    by (simp add: cycle_commanded_effort_def) (simp add: example_evals)
  have up: "update store_tools iiwa_nan
       = Inr (iiwa_nan\<lparr>cmd_vd := (1, 0, 0), cmd_omegad := (0, 0, 1 / 2), cmd_qd := (2, 0, 0, 0),
                passive_ds := \<lparr>ds_eigvals = [1, 1, 1], ds_desired = (1, 0, 0),
                                ds_measured = (0, 0, 0)\<rparr>,
                joints := replicate 7 \<lparr>hw_position = 0, hw_velocity = 0, hw_command = NaN\<rparr>\<rparr>)"
    unfolding update_def ce
    by (simp add: example_evals cycle_jac_def cycle_robot_state_def rectangular_def list_all_iff
        enforceJointLimits_def upt_rec cycle_q_def cycle_vd_def cycle_omegad_def cycle_qd_def
        cycle_passive_ds_def cycle_v_def cycle_twist_def cycle_jv_def mat_vec_def dot_def
        eval_nat_numeral)
  show ?thesis using qe an ce up by simp
qed

text \<open>
  C7. For every joint \<open>i\<close> with effort limit \<open>L\<close> and every torque \<open>t\<close> handed to the clamp,
  the command issued is \<open>L\<close> when \<open>t\<close> exceeds \<open>L\<close>, \<open>- L\<close> when \<open>t\<close> is below \<open>- L\<close>, and \<open>t\<close>
  itself otherwise. An infinite torque is clamped; NaN is neither above nor below and is
  issued as it is. For a number \<open>t\<close> and a limit that is not negative the command lies
  between \<open>- L\<close> and \<open>L\<close>; for a negative limit the first test decides. In an Active cycle
  the torques handed to the clamp are those computed before, and the cycle issues the
  clamped values.
\<close>

theorem issued_effort_is_clamped:
  assumes "initialised s" and "list_all (\<lambda>u. u \<noteq> None) (joint_urdfs s)"
    and "length eff = n_joints s" and "i < n_joints s" and "joint_urdfs s ! i = Some L"
  shows "\<exists>js'. issue_efforts s eff [0..<n_joints s] (joints s) = Inr js'
           \<and> length js' = n_joints s
           \<and> (case eff ! i of
                 Num t \<Rightarrow>
                   (L < t \<longrightarrow> hw_command (js' ! i) = Num L)
                   \<and> (t \<le> L \<and> t < - L \<longrightarrow> hw_command (js' ! i) = Num (- L))
                   \<and> (t \<le> L \<and> - L \<le> t \<longrightarrow> hw_command (js' ! i) = Num t)
                   \<and> (0 \<le> L \<longrightarrow>
                        (t < - L \<longrightarrow> hw_command (js' ! i) = Num (- L))
                        \<and> (\<exists>c. hw_command (js' ! i) = Num c \<and> - L \<le> c \<and> c \<le> L))
               | PInf \<Rightarrow> hw_command (js' ! i) = Num L
               | MInf \<Rightarrow> hw_command (js' ! i) = Num (- L)
               | NaN \<Rightarrow> hw_command (js' ! i) = NaN)
           \<and> (eff = cycle_commanded_effort tools s \<and> firstCommand s
                \<and> rectangular 6 (n_joints s) (cycle_jac tools s)
                \<and> 10 \<le> length (commands_buffer s) \<and> length (ref_j0 s) = n_joints s
              \<longrightarrow> (\<exists>s'. update tools s = Inr s' \<and> joints s' = js'))"
proof -
  have lens: "length (joints s) = n_joints s" "length (joint_urdfs s) = n_joints s"
    using assms(1) by (simp_all add: initialised_def)
  have pre: "\<forall>k\<in>set [0..<n_joints s]. k < length (joints s) \<and> joint_urdfs s ! k \<noteq> None"
    using assms(2) lens by (simp add: list_all_length)
  from issue_efforts_result[OF pre, of eff]
  obtain js' where
    r: "issue_efforts s eff [0..<n_joints s] (joints s) = Inr js'"
       "length js' = length (joints s)"
       "\<forall>k\<in>set [0..<n_joints s]. Inr (hw_command (js' ! k)) = enforceJointLimits s (eff ! k) k"
    by auto
  have "Inr (hw_command (js' ! i)) = enforceJointLimits s (eff ! i) i"
    using r(3) assms(4) by simp
  then have c: "hw_command (js' ! i) =
      (if dbl_greater (eff ! i) L then Num L
       else if dbl_less (eff ! i) (- L) then Num (- L) else eff ! i)"
    by (simp add: enforceJointLimits_def assms(5))
  have cases: "case eff ! i of
                 Num t \<Rightarrow>
                   (L < t \<longrightarrow> hw_command (js' ! i) = Num L)
                   \<and> (t \<le> L \<and> t < - L \<longrightarrow> hw_command (js' ! i) = Num (- L))
                   \<and> (t \<le> L \<and> - L \<le> t \<longrightarrow> hw_command (js' ! i) = Num t)
                   \<and> (0 \<le> L \<longrightarrow>
                        (t < - L \<longrightarrow> hw_command (js' ! i) = Num (- L))
                        \<and> (\<exists>c. hw_command (js' ! i) = Num c \<and> - L \<le> c \<and> c \<le> L))
               | PInf \<Rightarrow> hw_command (js' ! i) = Num L
               | MInf \<Rightarrow> hw_command (js' ! i) = Num (- L)
               | NaN \<Rightarrow> hw_command (js' ! i) = NaN"
    unfolding c by (cases "eff ! i") auto
  have upd: "eff = cycle_commanded_effort tools s \<and> firstCommand s
                \<and> rectangular 6 (n_joints s) (cycle_jac tools s)
                \<and> 10 \<le> length (commands_buffer s) \<and> length (ref_j0 s) = n_joints s
              \<longrightarrow> (\<exists>s'. update tools s = Inr s' \<and> joints s' = js')"
    using r(1) by (auto simp: update_def)
  show ?thesis
  proof (intro exI[of _ "js'"] conjI)
    show "issue_efforts s eff [0..<n_joints s] (joints s) = Inr js'" by (rule r(1))
    show "length js' = n_joints s" using r(2) lens by simp
  qed (rule cases, rule upd)
qed

theorem issued_effort_is_clamped_witness:
  "initialised iiwa_active \<and> list_all (\<lambda>u. u \<noteq> None) (joint_urdfs iiwa_active)
   \<and> length example_efforts = n_joints iiwa_active
   \<and> joint_urdfs iiwa_active = [Some 320, Some 320, Some 176, Some 176, Some 110, Some 40, Some 40]
   \<and> issue_efforts iiwa_active example_efforts [0..<n_joints iiwa_active] (joints iiwa_active)
       = Inr (map (\<lambda>c. \<lparr>hw_position = 0, hw_velocity = 0, hw_command = c\<rparr>)
                [Num 320, Num (- 320), Num 100, NaN, Num 110, Num (- 40), Num 0])
   \<and> length (cycle_commanded_effort store_tools iiwa_active) = n_joints iiwa_active
   \<and> firstCommand iiwa_active
   \<and> rectangular 6 (n_joints iiwa_active) (cycle_jac store_tools iiwa_active)
   \<and> 10 \<le> length (commands_buffer iiwa_active)
   \<and> length (ref_j0 iiwa_active) = n_joints iiwa_active
   \<and> cycle_commanded_effort store_tools iiwa_active ! 0 = Num (200 * pi)
   \<and> 320 < 200 * pi
   \<and> (\<exists>s'. update store_tools iiwa_active = Inr s' \<and> hw_command (joints s' ! 0) = Num 320)"
proof -
  have h: "initialised iiwa_active" "list_all (\<lambda>u. u \<noteq> None) (joint_urdfs iiwa_active)"
    by (simp_all add: example_evals initialised_def)
  have le: "length example_efforts = n_joints iiwa_active"
    by (simp add: example_efforts_def example_evals)
  have lim: "joint_urdfs iiwa_active
               = [Some 320, Some 320, Some 176, Some 176, Some 110, Some 40, Some 40]"
    by (simp add: example_evals)
  have run: "issue_efforts iiwa_active example_efforts [0..<n_joints iiwa_active]
               (joints iiwa_active)
       = Inr (map (\<lambda>c. \<lparr>hw_position = 0, hw_velocity = 0, hw_command = c\<rparr>)
                [Num 320, Num (- 320), Num 100, NaN, Num 110, Num (- 40), Num 0])"
    by (simp add: example_efforts_def example_evals enforceJointLimits_def upt_rec
        eval_nat_numeral)
  have g: "firstCommand iiwa_active"
    "rectangular 6 (n_joints iiwa_active) (cycle_jac store_tools iiwa_active)"
    "10 \<le> length (commands_buffer iiwa_active)"
    "length (ref_j0 iiwa_active) = n_joints iiwa_active"
    by (simp_all add: example_evals cycle_jac_def cycle_robot_state_def rectangular_def
        list_all_iff)
  have ce: "cycle_commanded_effort store_tools iiwa_active
              = map Num [200 * pi, 3 / 4, 1, - 13 / 20, 0, 19 / 25, 0]"
    by (simp add: cycle_evals algebra_evals example_evals)
  have lc: "length (cycle_commanded_effort store_tools iiwa_active) = n_joints iiwa_active"
    unfolding ce by (simp add: example_evals)
  have t0: "cycle_commanded_effort store_tools iiwa_active ! 0 = Num (200 * pi)"
    by (simp add: ce)
  have big: "320 < 200 * pi" using pi_ge_two by simp
  have i0: "0 < n_joints iiwa_active" "joint_urdfs iiwa_active ! 0 = Some 320"
    by (simp_all add: example_evals)
  from issued_effort_is_clamped[OF h lc i0, of store_tools] g big
  have ex: "\<exists>s'. update store_tools iiwa_active = Inr s' \<and> hw_command (joints s' ! 0) = Num 320"
    unfolding t0 by auto
  show ?thesis by (intro conjI h le lim run lc g t0 big ex)
qed

end
